theory Spec2Isabelle
  imports Complex_Main
begin

section \<open>Python values, exceptions and name lookup\<close>

text \<open>
  The values that travel through the keyword arguments and the configuration
  dictionaries of the chat engines. \<open>PyObj\<close> stands for an object of a library
  the repository only holds a reference to (tokenizer, template, engine, sampling
  parameters); it is identified by a label. A float is modelled by its real value: the
  code only tests floats for \<open>None\<close> and for truthiness (a float is false exactly when it
  is zero).
\<close>

datatype pyval =
    PyNone
  | PyBool bool
  | PyInt int
  | PyFloat real
  | PyStr string
  | PyList "pyval list"
  | PyObj string

text \<open>
  Exceptions as values. \<open>UnboundLocalError\<close> is a subclass of \<open>NameError\<close> in Python.
  \<open>LibraryError\<close> is any other exception raised inside a library call. The
  cancellation and invalid-state exceptions exist twice, as classes of \<open>asyncio\<close> and
  as classes of \<open>concurrent.futures\<close>; each carries its message.
\<close>

datatype pyerror =
    NameError string
  | UnboundLocalError string
  | KeyError string
  | AttributeError string
  | IndexError string
  | NotImplementedError string
  | OSError string
  | ValueError string
  | LibraryError string
  | AsyncioCancelledError string
  | FuturesCancelledError string
  | AsyncioInvalidStateError string
  | FuturesInvalidStateError string
  | SystemExit int
  | KeyboardInterrupt

fun is_NameError :: "pyerror \<Rightarrow> bool" where
  "is_NameError (NameError n) = True"
| "is_NameError (UnboundLocalError n) = True"
| "is_NameError e = False"

text \<open>Sequencing of steps that may raise: the first exception ends the evaluation.\<close>

definition bind :: "pyerror + 'a \<Rightarrow> ('a \<Rightarrow> pyerror + 'b) \<Rightarrow> pyerror + 'b" where
  "bind m f = (case m of Inl e \<Rightarrow> Inl e | Inr x \<Rightarrow> f x)"

text \<open>Python truthiness, \<open>a or b\<close>, \<open>d[k]\<close> and \<open>d.pop(k, default)\<close>.\<close>

fun truthy :: "pyval \<Rightarrow> bool" where
  "truthy PyNone = False"
| "truthy (PyBool b) = b"
| "truthy (PyInt i) = (i \<noteq> 0)"
| "truthy (PyFloat x) = (x \<noteq> 0)"
| "truthy (PyStr s) = (s \<noteq> [])"
| "truthy (PyList xs) = (xs \<noteq> [])"
| "truthy (PyObj l) = True"

definition py_or :: "pyval \<Rightarrow> pyval \<Rightarrow> pyval" where
  "py_or a b = (if truthy a then a else b)"

definition getitem :: "(string \<rightharpoonup> pyval) \<Rightarrow> string \<Rightarrow> pyerror + pyval" where
  "getitem d k = (case d k of None \<Rightarrow> Inl (KeyError k) | Some v \<Rightarrow> Inr v)"

definition pop :: "(string \<rightharpoonup> pyval) \<Rightarrow> string \<Rightarrow> pyval \<Rightarrow> pyval \<times> (string \<rightharpoonup> pyval)" where
  "pop d k dflt = (case d k of None \<Rightarrow> (dflt, d) | Some v \<Rightarrow> (v, d(k := None)))"

text \<open>
  \<open>obj.name = value\<close>: \<open>None\<close>, numbers, strings and lists take no new attribute.
\<close>

fun store_attr :: "pyval \<Rightarrow> string \<Rightarrow> pyerror + unit" where
  "store_attr (PyObj l) name = Inr ()"
| "store_attr v name = Inl (AttributeError name)"

text \<open>
  The names bound at module level in \<open>chat/vllm_engine.py\<close>: its imports (those under
  \<open>if is_vllm_available()\<close> included; those under \<open>if TYPE_CHECKING\<close> are not bound at
  run time), \<open>logger\<close>, the class itself and the attributes every module has.
\<close>

definition vllm_engine_globals :: "string list" where
  "vllm_engine_globals =
    [''uuid'', ''TYPE_CHECKING'', ''Any'', ''AsyncGenerator'', ''AsyncIterator'', ''Dict'',
     ''List'', ''Optional'', ''Sequence'', ''Union'', ''override'', ''logging'',
     ''get_device_count'', ''is_vllm_available'', ''load_config'', ''load_tokenizer'',
     ''BaseEngine'', ''Response'', ''AsyncEngineArgs'', ''AsyncLLMEngine'', ''RequestOutput'',
     ''SamplingParams'', ''LoRARequest'', ''logger'', ''VllmEngine'', ''__name__'', ''__doc__'',
     ''__package__'', ''__loader__'', ''__spec__'', ''__file__'', ''__cached__'',
     ''__builtins__'']"

text \<open>The built-in functions, constants and exceptions of Python.\<close>

definition python_builtins :: "string list" where
  "python_builtins =
    [''abs'', ''aiter'', ''all'', ''anext'', ''any'', ''ascii'', ''bin'', ''bool'',
     ''breakpoint'', ''bytearray'', ''bytes'', ''callable'', ''chr'', ''classmethod'',
     ''compile'', ''complex'', ''delattr'', ''dict'', ''dir'', ''divmod'', ''enumerate'',
     ''eval'', ''exec'', ''filter'', ''float'', ''format'', ''frozenset'', ''getattr'',
     ''globals'', ''hasattr'', ''hash'', ''help'', ''hex'', ''id'', ''input'', ''int'',
     ''isinstance'', ''issubclass'', ''iter'', ''len'', ''list'', ''locals'', ''map'',
     ''max'', ''memoryview'', ''min'', ''next'', ''object'', ''oct'', ''open'', ''ord'',
     ''pow'', ''print'', ''property'', ''range'', ''repr'', ''reversed'', ''round'',
     ''set'', ''setattr'', ''slice'', ''sorted'', ''staticmethod'', ''str'', ''sum'',
     ''super'', ''tuple'', ''type'', ''vars'', ''zip'', ''True'', ''False'', ''None'',
     ''NotImplemented'', ''Ellipsis'', ''__debug__'', ''__import__'', ''__build_class__'',
     ''copyright'', ''credits'', ''license'', ''exit'', ''quit'',
     ''BaseException'', ''BaseExceptionGroup'', ''Exception'', ''ExceptionGroup'',
     ''ArithmeticError'', ''AssertionError'', ''AttributeError'', ''BlockingIOError'',
     ''BrokenPipeError'', ''BufferError'', ''BytesWarning'', ''ChildProcessError'',
     ''ConnectionAbortedError'', ''ConnectionError'', ''ConnectionRefusedError'',
     ''ConnectionResetError'', ''DeprecationWarning'', ''EOFError'', ''EncodingWarning'',
     ''EnvironmentError'', ''FileExistsError'', ''FileNotFoundError'', ''FloatingPointError'',
     ''FutureWarning'', ''GeneratorExit'', ''IOError'', ''ImportError'', ''ImportWarning'',
     ''IndentationError'', ''IndexError'', ''InterruptedError'', ''IsADirectoryError'',
     ''KeyError'', ''KeyboardInterrupt'', ''LookupError'', ''MemoryError'',
     ''ModuleNotFoundError'', ''NameError'', ''NotADirectoryError'', ''NotImplementedError'',
     ''OSError'', ''OverflowError'', ''PendingDeprecationWarning'', ''PermissionError'',
     ''ProcessLookupError'', ''RecursionError'', ''ReferenceError'', ''ResourceWarning'',
     ''RuntimeError'', ''RuntimeWarning'', ''StopAsyncIteration'', ''StopIteration'',
     ''SyntaxError'', ''SyntaxWarning'', ''SystemError'', ''SystemExit'', ''TabError'',
     ''TimeoutError'', ''TypeError'', ''UnboundLocalError'', ''UnicodeDecodeError'',
     ''UnicodeEncodeError'', ''UnicodeError'', ''UnicodeTranslateError'', ''UnicodeWarning'',
     ''UserWarning'', ''ValueError'', ''Warning'', ''ZeroDivisionError'']"

text \<open>
  Reading a name that is not a local of the function: the module's names, then the
  built-ins, else \<open>NameError\<close>. Reading a local that no executed statement has assigned
  raises \<open>UnboundLocalError\<close>.
\<close>

definition load_global :: "string \<Rightarrow> pyerror + pyval" where
  "load_global n =
    (if n \<in> set vllm_engine_globals \<or> n \<in> set python_builtins then Inr (PyObj n)
     else Inl (NameError n))"

definition load_local :: "string \<Rightarrow> pyval option \<Rightarrow> pyerror + pyval" where
  "load_local n v = (case v of None \<Rightarrow> Inl (UnboundLocalError n) | Some x \<Rightarrow> Inr x)"

section \<open>The result records\<close>

text \<open>
  \<open>RequestOutput\<close> and its \<open>outputs\<close> are the engine library's result objects, with the
  attributes \<open>chat\<close> and \<open>stream_chat\<close> read; \<open>Response\<close> is the record of
  \<open>base_engine\<close>, with the four fields \<open>chat\<close> fills.
\<close>

record CompletionOutput =
  out_text :: string
  out_token_ids :: "int list"
  out_finish_reason :: "string option"

record RequestOutput =
  ro_prompt_token_ids :: "int list"
  ro_outputs :: "CompletionOutput list"

record Response =
  response_text :: string
  response_length :: nat
  prompt_length :: nat
  finish_reason :: "string option"

text \<open>
  An asynchronous generator, as the sequence of what iterating it does: it yields a
  value and goes on, stops, or raises.
\<close>

datatype 'a agen = Stop | Yield 'a "'a agen" | Raise pyerror

section \<open>chat/vllm\_engine.py\<close>

text \<open>The keyword arguments \<open>_generate\<close> passes to \<open>SamplingParams\<close>, in its order.\<close>

record sampling_kwargs =
  sp_n :: pyval
  sp_repetition_penalty :: pyval
  sp_temperature :: pyval
  sp_top_p :: pyval
  sp_top_k :: pyval
  sp_stop :: pyval
  sp_stop_token_ids :: pyval
  sp_max_tokens :: pyval
  sp_skip_special_tokens :: pyval

text \<open>The arguments of \<open>chat\<close>, \<open>achat\<close>, \<open>stream_chat\<close> and \<open>_generate\<close>.\<close>

record call_args =
  messages :: "(string \<times> string) list list"
  system :: "string option"
  tools :: "string option"
  images :: "pyval list option"
  videos :: "pyval list option"
  audios :: "pyval list option"
  input_kwargs :: "string \<rightharpoonup> pyval"

text \<open>The attributes of a \<open>VllmEngine\<close> that its methods read.\<close>

record VllmEngine =
  can_generate :: bool
  tokenizer :: pyval
  processor :: pyval
  template :: pyval
  generating_args :: "string \<rightharpoonup> pyval"
  model :: pyval
  lora_request :: pyval

text \<open>
  The parsed argument objects of \<open>hparams\<close>: the fields the code under study reads or
  writes, and all their other fields together.
\<close>

record model_args =
  model_name_or_path :: "string option"
  infer_backend :: string
  infer_dtype :: string
  model_other :: "(string \<times> pyval) list"

record data_args =
  data_template :: "string option"
  data_other :: "(string \<times> pyval) list"

text \<open>
  The library calls of the engine module, taken as parameters; each may raise.
  \<open>lib_load_config\<close> gives the \<open>quantization_config\<close> of the configuration it loads.
  \<open>lib_model_generate\<close> is \<open>AsyncLLMEngine.generate\<close>: the stream of cumulative results
  for a request. \<open>lib_init_tail\<close> stands for lines 61 to 94 of \<open>__init__\<close>, which run
  once \<open>get_template_and_fix_tokenizer\<close> has returned the template.
\<close>

record vllm_lib =
  lib_load_config :: "model_args \<Rightarrow> pyerror + (string \<times> pyval) list option"
  lib_load_tokenizer :: "model_args \<Rightarrow> pyerror + (string \<rightharpoonup> pyval)"
  lib_init_tail ::
    "model_args \<Rightarrow> data_args \<Rightarrow> bool \<Rightarrow> pyval \<Rightarrow> pyval \<Rightarrow> pyval \<Rightarrow> (string \<rightharpoonup> pyval)
      \<Rightarrow> pyerror + VllmEngine"
  lib_get_stop_token_ids :: "pyval \<Rightarrow> pyval \<Rightarrow> pyerror + pyval"
  lib_SamplingParams :: "sampling_kwargs \<Rightarrow> pyerror + pyval"
  lib_model_generate ::
    "pyval \<Rightarrow> pyval \<Rightarrow> pyval \<Rightarrow> pyval \<Rightarrow> pyval \<Rightarrow> pyerror + RequestOutput agen"

text \<open>\<open>x if x is not None else self.generating_args[key]\<close>\<close>

definition arg_or_default :: "pyval \<Rightarrow> (string \<rightharpoonup> pyval) \<Rightarrow> string \<Rightarrow> pyerror + pyval" where
  "arg_or_default x d k = (if x \<noteq> PyNone then Inr x else getitem d k)"

text \<open>
  \<open>VllmEngine._generate\<close>, lines 107 to 147: the nine \<open>pop\<close>s, the conditional
  assignment of the local \<open>max_tokens\<close>, and the call of \<open>SamplingParams\<close> with its
  arguments evaluated left to right.
\<close>

definition generate_sampling_params :: "vllm_lib \<Rightarrow> VllmEngine \<Rightarrow> call_args \<Rightarrow> pyerror + pyval" where
  "generate_sampling_params lib self a =
    (let (temperature, kw1) = pop (input_kwargs a) ''temperature'' PyNone;
         (top_p, kw2) = pop kw1 ''top_p'' PyNone;
         (top_k, kw3) = pop kw2 ''top_k'' PyNone;
         (num_return_sequences, kw4) = pop kw3 ''num_return_sequences'' (PyInt 1);
         (repetition_penalty, kw5) = pop kw4 ''repetition_penalty'' PyNone;
         (length_penalty, kw6) = pop kw5 ''length_penalty'' PyNone;
         (max_length, kw7) = pop kw6 ''max_length'' PyNone;
         (max_new_tokens, kw8) = pop kw7 ''max_new_tokens'' (PyInt 4096);
         (stop, kw9) = pop kw8 ''stop'' PyNone;
         max_tokens = (if truthy max_new_tokens then Some max_new_tokens else None)
     in
      bind (arg_or_default repetition_penalty (generating_args self) ''repetition_penalty'')
        (\<lambda>rp.
      bind (arg_or_default temperature (generating_args self) ''temperature'')
        (\<lambda>temp.
      bind (arg_or_default top_p (generating_args self) ''top_p'')
        (\<lambda>tp.
      bind (arg_or_default top_k (generating_args self) ''top_k'')
        (\<lambda>tk.
      bind (lib_get_stop_token_ids lib (template self) (tokenizer self))
        (\<lambda>stop_ids.
      bind (load_local ''max_tokens'' max_tokens)
        (\<lambda>mt.
      bind (getitem (generating_args self) ''skip_special_tokens'')
        (\<lambda>sst.
      lib_SamplingParams lib
        \<lparr>sp_n = num_return_sequences,
         sp_repetition_penalty = py_or rp (PyFloat 1),
         sp_temperature = temp,
         sp_top_p = py_or tp (PyFloat 1),
         sp_top_k = tk,
         sp_stop = stop,
         sp_stop_token_ids = stop_ids,
         sp_max_tokens = mt,
         sp_skip_special_tokens = sst\<rparr>))))))))"

text \<open>
  \<open>VllmEngine._generate\<close>, lines 149 to 155: the call of \<open>self.model.generate\<close>. Its
  first argument reads the names \<open>prompt_ids\<close> and \<open>multi_modal_data\<close>; neither is a
  parameter of \<open>_generate\<close> nor assigned in its body, so both are looked up as globals.
\<close>

definition VllmEngine_generate ::
    "vllm_lib \<Rightarrow> VllmEngine \<Rightarrow> call_args \<Rightarrow> pyerror + RequestOutput agen" where
  "VllmEngine_generate lib self a =
    bind (generate_sampling_params lib self a)
      (\<lambda>sampling_params.
    bind (load_global ''prompt_ids'')
      (\<lambda>prompt_ids.
    bind (load_global ''multi_modal_data'')
      (\<lambda>multi_modal_data.
    lib_model_generate lib (model self) prompt_ids multi_modal_data sampling_params
      (lora_request self))))"

text \<open>
  \<open>VllmEngine.chat\<close>: the loop keeps the last item of the stream in \<open>final_output\<close>
  (\<open>None\<close> before the first), then one \<open>Response\<close> is built per output of it.
\<close>

fun drain :: "RequestOutput option \<Rightarrow> RequestOutput agen \<Rightarrow> pyerror + RequestOutput option" where
  "drain final_output Stop = Inr final_output"
| "drain final_output (Yield request_output g) = drain (Some request_output) g"
| "drain final_output (Raise e) = Inl e"

definition to_response :: "RequestOutput \<Rightarrow> CompletionOutput \<Rightarrow> Response" where
  "to_response final_output output =
    \<lparr>response_text = out_text output,
     response_length = length (out_token_ids output),
     prompt_length = length (ro_prompt_token_ids final_output),
     finish_reason = out_finish_reason output\<rparr>"

definition collect_results :: "RequestOutput agen \<Rightarrow> pyerror + Response list" where
  "collect_results generator =
    bind (drain None generator)
      (\<lambda>final_output.
        case final_output of
          None \<Rightarrow> Inl (AttributeError ''outputs'')
        | Some fo \<Rightarrow> Inr (map (to_response fo) (ro_outputs fo)))"

definition VllmEngine_chat :: "vllm_lib \<Rightarrow> VllmEngine \<Rightarrow> call_args \<Rightarrow> pyerror + Response list" where
  "VllmEngine_chat lib self a = bind (VllmEngine_generate lib self a) collect_results"

text \<open>
  \<open>VllmEngine.stream_chat\<close>: for each item of the stream, the text of its first output
  beyond the length of the text seen before is yielded. The result is the generator's
  own sequence of yields, ended by \<open>Stop\<close> or by the exception that leaves it.
\<close>

fun stream_loop :: "string \<Rightarrow> RequestOutput agen \<Rightarrow> string agen" where
  "stream_loop generated_text Stop = Stop"
| "stream_loop generated_text (Raise e) = Raise e"
| "stream_loop generated_text (Yield result g) =
    (case ro_outputs result of
       [] \<Rightarrow> Raise (IndexError ''outputs'')
     | output # _ \<Rightarrow>
         Yield (drop (length generated_text) (out_text output))
           (stream_loop (out_text output) g))"

definition VllmEngine_stream_chat :: "vllm_lib \<Rightarrow> VllmEngine \<Rightarrow> call_args \<Rightarrow> string agen" where
  "VllmEngine_stream_chat lib self a =
    (case VllmEngine_generate lib self a of
       Inl e \<Rightarrow> Raise e
     | Inr generator \<Rightarrow> stream_loop [] generator)"

text \<open>
  \<open>VllmEngine.__init__\<close> up to line 60. \<open>load_config\<close> gives the configuration's
  \<open>quantization_config\<close> (\<open>None\<close> when the attribute is absent); when it is a non-empty
  dictionary the comparison with \<open>QuantizationMethod.GPTQ\<close> reads the name
  \<open>QuantizationMethod\<close>, which the module does not bind either.
  Line 59 stores \<open>padding_side\<close> on the tokenizer, and line 60 reads the name
  \<open>get_template_and_fix_tokenizer\<close>.
\<close>

definition VllmEngine_init ::
    "vllm_lib \<Rightarrow> model_args \<Rightarrow> data_args \<Rightarrow> string \<Rightarrow> (string \<rightharpoonup> pyval) \<Rightarrow> pyerror + VllmEngine" where
  "VllmEngine_init lib margs dargs stage gen_args =
    bind (lib_load_config lib margs)
      (\<lambda>quantization_config.
    bind (case quantization_config of
            None \<Rightarrow> Inr margs
          | Some qc \<Rightarrow>
              if qc = [] then Inr margs
              else bind (load_global ''QuantizationMethod'')
                (\<lambda>qm.
                  if (case map_of qc ''quant_method'' of None \<Rightarrow> PyStr [] | Some v \<Rightarrow> v) = qm
                     \<and> infer_dtype margs = ''auto''
                  then Inr (margs\<lparr>infer_dtype := ''float16''\<rparr>) else Inr margs))
      (\<lambda>margs'.
    bind (lib_load_tokenizer lib margs')
      (\<lambda>tokenizer_module.
    bind (getitem tokenizer_module ''tokenizer'')
      (\<lambda>tok.
    bind (getitem tokenizer_module ''processor'')
      (\<lambda>proc.
    bind (store_attr tok ''padding_side'')
      (\<lambda>stored.
    bind (load_global ''get_template_and_fix_tokenizer'')
      (\<lambda>get_template.
    lib_init_tail lib margs' dargs (stage = ''sft'') tok proc get_template gen_args)))))))"

section \<open>The event loop, its thread and the futures\<close>

text \<open>
  The part of \<open>asyncio\<close>, \<open>threading\<close> and \<open>concurrent.futures\<close> that
  \<open>chat_model.py\<close> calls, as a sequential state. The type \<open>'e\<close> is the state of the
  inference backend.

  A coroutine is the sequence of its segments between awaits. A segment maps the state
  of the backend to a new state and either ends the coroutine, with a result or an
  exception, or suspends it at an await; the last segment always ends it.
\<close>

datatype 'e coro =
    Last "'e \<Rightarrow> (pyerror + Response list) \<times> 'e"
  | Seg "'e \<Rightarrow> (pyerror + Response list) option \<times> 'e" "'e coro"

text \<open>
  Whatever else runs on the loop (the callbacks and tasks of other callers) runs before
  a task's first segment and while the task is suspended. It is given as a list, one
  entry per such point: others change the backend, or one of them ends the loop's thread
  (it raises \<open>SystemExit\<close> or \<open>KeyboardInterrupt\<close>). An exhausted list stands for a loop
  that has nothing else to do.
\<close>

datatype 'e interference = Others "'e \<Rightarrow> 'e" | LoopDies

fun interfere :: "'e interference list \<Rightarrow> 'e \<Rightarrow> ('e \<times> 'e interference list) option" where
  "interfere [] e = Some (e, [])"
| "interfere (Others g # ivs) e = Some (g e, ivs)"
| "interfere (LoopDies # ivs) e = None"

text \<open>
  The loop runs a task: the outcome the coroutine ends with (what a coroutine awaiting
  it gets), or \<open>None\<close> when the loop's thread ended first; the state of the backend; and
  what is left of the interference.
\<close>

fun run_task ::
    "'e coro \<Rightarrow> 'e interference list \<Rightarrow> 'e
      \<Rightarrow> (pyerror + Response list) option \<times> 'e \<times> 'e interference list" where
  "run_task (Last f) ivs e =
    (case interfere ivs e of
       None \<Rightarrow> (None, e, [])
     | Some (e0, rest) \<Rightarrow> (case f e0 of (out, e1) \<Rightarrow> (Some out, e1, rest)))"
| "run_task (Seg f c) ivs e =
    (case interfere ivs e of
       None \<Rightarrow> (None, e, [])
     | Some (e0, rest) \<Rightarrow>
        (case f e0 of
           (Some out, e1) \<Rightarrow> (Some out, e1, rest)
         | (None, e1) \<Rightarrow> run_task c rest e1))"

text \<open>
  A task that ends with \<open>SystemExit\<close> or \<open>KeyboardInterrupt\<close> lets the exception leave
  \<open>run_forever\<close>: the loop's thread ends and nothing handed to the loop runs any more.
\<close>

fun stops_loop :: "pyerror + Response list \<Rightarrow> bool" where
  "stops_loop (Inl (SystemExit code)) = True"
| "stops_loop (Inl KeyboardInterrupt) = True"
| "stops_loop out = False"

text \<open>
  How the outcome of the task becomes the state of the \<open>concurrent.futures\<close> future the
  caller holds. A task that ended with \<open>asyncio\<close>'s \<open>CancelledError\<close> is a cancelled task,
  and cancels the future: its \<open>result()\<close> raises the other \<open>CancelledError\<close>, with no
  message. The cancellation and invalid-state exceptions of \<open>concurrent.futures\<close> are
  replaced by those of \<open>asyncio\<close>. Every other outcome is handed over as it is.
\<close>

fun convert_future_exc :: "pyerror \<Rightarrow> pyerror" where
  "convert_future_exc (FuturesCancelledError m) = AsyncioCancelledError m"
| "convert_future_exc (FuturesInvalidStateError m) = AsyncioInvalidStateError m"
| "convert_future_exc e = e"

fun set_concurrent_future_state :: "pyerror + Response list \<Rightarrow> pyerror + Response list" where
  "set_concurrent_future_state (Inr r) = Inr r"
| "set_concurrent_future_state (Inl (AsyncioCancelledError m)) = Inl (FuturesCancelledError [])"
| "set_concurrent_future_state (Inl e) = Inl (convert_future_exc e)"

text \<open>
  The state. A loop runs or not, in the thread that called its \<open>run_forever\<close>. A future
  of \<open>run_coroutine_threadsafe\<close> belongs to the loop its coroutine was handed to, and is
  pending or holds an outcome. Threads started are numbered from 0; the main thread is
  none of them.
\<close>

record event_loop =
  running :: bool
  runner :: "nat option"

record thread =
  thr_target :: string
  thr_loop :: nat
  thr_daemon :: bool

datatype thread_id = MainThread | Started nat

record 'e future =
  fut_loop :: nat
  fut_coro :: "'e coro"
  fut_state :: "(pyerror + Response list) option"

record 'e world =
  loops :: "event_loop list"
  threads :: "thread list"
  futures :: "nat \<rightharpoonup> 'e future"
  next_future :: nat
  backend :: 'e

text \<open>\<open>asyncio.new_event_loop()\<close>: a new loop, not yet running.\<close>

definition new_event_loop :: "'e world \<Rightarrow> nat \<times> 'e world" where
  "new_event_loop w =
    (length (loops w), w\<lparr>loops := loops w @ [\<lparr>running = False, runner = None\<rparr>]\<rparr>)"

text \<open>
  \<open>_start_background_loop\<close>, run by the thread \<open>tid\<close>: the loop becomes that thread's
  loop and runs forever.
\<close>

definition start_background_loop :: "nat \<Rightarrow> nat \<Rightarrow> 'e world \<Rightarrow> 'e world" where
  "start_background_loop tid loop w =
    (if loop < length (loops w)
     then w\<lparr>loops := (loops w)[loop := \<lparr>running = True, runner = Some tid\<rparr>]\<rparr>
     else w)"

text \<open>\<open>Thread(target=..., args=(loop,), daemon=...)\<close> followed by \<open>start()\<close>.\<close>

definition Thread_start :: "thread \<Rightarrow> 'e world \<Rightarrow> nat \<times> 'e world" where
  "Thread_start t w =
    (let tid = length (threads w);
         w1 = w\<lparr>threads := threads w @ [t]\<rparr>
     in (tid,
         if thr_target t = ''_start_background_loop''
         then start_background_loop tid (thr_loop t) w1
         else w1))"

text \<open>
  \<open>asyncio.run_coroutine_threadsafe(coro, loop)\<close>: a new pending future, and the
  coroutine handed to the loop for it.
\<close>

definition run_coroutine_threadsafe :: "'e coro \<Rightarrow> nat \<Rightarrow> 'e world \<Rightarrow> nat \<times> 'e world" where
  "run_coroutine_threadsafe coro loop w =
    (let fid = next_future w
     in (fid,
         w\<lparr>next_future := Suc fid,
           futures := (futures w)(fid \<mapsto> \<lparr>fut_loop = loop, fut_coro = coro, fut_state = None\<rparr>)\<rparr>))"

text \<open>The loop's thread has ended: \<open>run_forever\<close> has been left.\<close>

definition loop_stopped :: "nat \<Rightarrow> 'e world \<Rightarrow> 'e world" where
  "loop_stopped loop w =
    w\<lparr>loops := (loops w)[loop := (loops w ! loop)\<lparr>running := False\<rparr>]\<rparr>"

text \<open>The caller is the thread that runs the loop.\<close>

fun on_loop_thread :: "thread_id \<Rightarrow> event_loop \<Rightarrow> bool" where
  "on_loop_thread MainThread l = False"
| "on_loop_thread (Started t) l = (runner l = Some t)"

text \<open>
  \<open>Future.result()\<close> with no timeout, called by the thread \<open>caller\<close>: the outcome once the
  future is set, and \<open>None\<close> when the call never returns. The future is set by its loop,
  if that loop runs and the caller does not block its thread: the loop runs the task,
  and unless the task's outcome or something else ends the thread, the callback that
  sets the future runs after it.
\<close>

definition future_result ::
    "nat \<Rightarrow> thread_id \<Rightarrow> 'e interference list \<Rightarrow> 'e world
      \<Rightarrow> (pyerror + Response list) option \<times> 'e world" where
  "future_result fid caller ivs w =
    (case futures w fid of
       None \<Rightarrow> (None, w)
     | Some f \<Rightarrow>
        (case fut_state f of
           Some out \<Rightarrow> (Some out, w)
         | None \<Rightarrow>
            if fut_loop f < length (loops w) \<and> running (loops w ! fut_loop f) \<and>
               \<not> on_loop_thread caller (loops w ! fut_loop f)
            then
              (case run_task (fut_coro f) ivs (backend w) of
                 (None, e1, rest) \<Rightarrow> (None, loop_stopped (fut_loop f) (w\<lparr>backend := e1\<rparr>))
               | (Some out, e1, rest) \<Rightarrow>
                   if stops_loop out
                   then (None, loop_stopped (fut_loop f) (w\<lparr>backend := e1\<rparr>))
                   else
                     (case interfere rest e1 of
                        None \<Rightarrow> (None, loop_stopped (fut_loop f) (w\<lparr>backend := e1\<rparr>))
                      | Some (e2, rest') \<Rightarrow>
                          (Some (set_concurrent_future_state out),
                           w\<lparr>backend := e2,
                             futures := (futures w)(fid \<mapsto>
                               f\<lparr>fut_state := Some (set_concurrent_future_state out)\<rparr>)\<rparr>)))
            else (None, w)))"

section \<open>chat/chat\_model.py\<close>

text \<open>
  The engines behind a \<open>ChatModel\<close>. \<open>HuggingfaceEngine\<close> is \<open>chat/hf_engine.py\<close>, whose
  constructor and \<open>chat\<close> are parameters, as is \<open>get_infer_args\<close> of \<open>hparams/parser.py\<close>.
  Of \<open>finetuning_args\<close> only \<open>stage\<close> is read; \<open>generating_args\<close> is given by its
  dictionary.
\<close>

datatype engine = Hf pyval | Vllm VllmEngine

record 'e libs =
  get_infer_args ::
    "(string \<rightharpoonup> pyval) option
      \<Rightarrow> pyerror + (model_args \<times> data_args \<times> string \<times> (string \<rightharpoonup> pyval))"
  HuggingfaceEngine_init :: "model_args \<Rightarrow> data_args \<Rightarrow> (string \<rightharpoonup> pyval) \<Rightarrow> pyerror + pyval"
  HuggingfaceEngine_chat :: "pyval \<Rightarrow> call_args \<Rightarrow> 'e coro"
  vllm :: vllm_lib

record ChatModel =
  engine_type :: string
  engine :: engine
  self_loop :: nat
  self_thread :: nat

text \<open>Lines 44 to 47 of \<open>ChatModel.__init__\<close>.\<close>

definition override_args ::
    "string option \<Rightarrow> string option \<Rightarrow> model_args \<times> data_args \<Rightarrow> model_args \<times> data_args" where
  "override_args model_name_or_path_arg template_arg p =
    (case p of (margs, dargs) \<Rightarrow>
      ((case model_name_or_path_arg of
          None \<Rightarrow> margs
        | Some v \<Rightarrow> margs\<lparr>model_name_or_path := Some v\<rparr>),
       (case template_arg of
          None \<Rightarrow> dargs
        | Some t \<Rightarrow> dargs\<lparr>data_template := Some t\<rparr>)))"

text \<open>Lines 50 to 57 of \<open>ChatModel.__init__\<close>.\<close>

definition select_engine ::
    "'e libs \<Rightarrow> model_args \<Rightarrow> data_args \<Rightarrow> string \<Rightarrow> (string \<rightharpoonup> pyval) \<Rightarrow> pyerror + engine" where
  "select_engine L margs dargs stage gen_args =
    (if infer_backend margs = ''huggingface'' then
       bind (HuggingfaceEngine_init L margs dargs gen_args) (\<lambda>h. Inr (Hf h))
     else if infer_backend margs = ''vllm'' then
       bind (VllmEngine_init (vllm L) margs dargs stage gen_args) (\<lambda>v. Inr (Vllm v))
     else Inl (NotImplementedError (''Unknown backend: '' @ infer_backend margs)))"

definition ChatModel_init ::
    "'e libs \<Rightarrow> (string \<rightharpoonup> pyval) option \<Rightarrow> string option \<Rightarrow> string option \<Rightarrow> 'e world
      \<Rightarrow> (pyerror + ChatModel) \<times> 'e world" where
  "ChatModel_init L args model_name_or_path_arg template_arg w =
    (case get_infer_args L args of
       Inl e \<Rightarrow> (Inl e, w)
     | Inr (margs0, dargs0, stage, gen_args) \<Rightarrow>
        (case override_args model_name_or_path_arg template_arg (margs0, dargs0) of
          (margs, dargs) \<Rightarrow>
           (case select_engine L margs dargs stage gen_args of
              Inl e \<Rightarrow> (Inl e, w)
            | Inr eng \<Rightarrow>
               (case new_event_loop w of
                 (loop, w1) \<Rightarrow>
                  (case Thread_start
                          \<lparr>thr_target = ''_start_background_loop'', thr_loop = loop,
                           thr_daemon = True\<rparr> w1 of
                    (thread, w2) \<Rightarrow>
                      (Inr \<lparr>engine_type = infer_backend margs, engine = eng,
                            self_loop = loop, self_thread = thread\<rparr>, w2))))))"

text \<open>
  \<open>VllmEngine.chat\<close> as a coroutine. Its first segment runs \<open>_generate\<close>, which has no
  await of its own, and ends at the first await of the \<open>async for\<close>; each item of the
  stream resumes it, and the end of the stream lets it build the responses.
\<close>

fun drain_coro :: "RequestOutput option \<Rightarrow> RequestOutput agen \<Rightarrow> 'e coro" where
  "drain_coro final_output Stop =
    Last (\<lambda>e. (case final_output of
                  None \<Rightarrow> Inl (AttributeError ''outputs'')
                | Some fo \<Rightarrow> Inr (map (to_response fo) (ro_outputs fo)), e))"
| "drain_coro final_output (Raise err) = Last (\<lambda>e. (Inl err, e))"
| "drain_coro final_output (Yield request_output g) =
    Seg (\<lambda>e. (None, e)) (drain_coro (Some request_output) g)"

definition VllmEngine_chat_coro :: "vllm_lib \<Rightarrow> VllmEngine \<Rightarrow> call_args \<Rightarrow> 'e coro" where
  "VllmEngine_chat_coro lib self a =
    (case VllmEngine_generate lib self a of
       Inl err \<Rightarrow> Last (\<lambda>e. (Inl err, e))
     | Inr generator \<Rightarrow> drain_coro None generator)"

text \<open>\<open>self.engine.chat(...)\<close>, by the class of the engine.\<close>

fun engine_chat :: "'e libs \<Rightarrow> engine \<Rightarrow> call_args \<Rightarrow> 'e coro" where
  "engine_chat L (Hf h) a = HuggingfaceEngine_chat L h a"
| "engine_chat L (Vllm v) a = VllmEngine_chat_coro (vllm L) v a"

text \<open>\<open>achat\<close> awaits the engine's \<open>chat\<close> and returns what it returns.\<close>

definition ChatModel_achat :: "'e libs \<Rightarrow> ChatModel \<Rightarrow> call_args \<Rightarrow> 'e coro" where
  "ChatModel_achat L self a = engine_chat L (engine self) a"

text \<open>
  \<open>ChatModel.chat\<close>, called by the thread \<open>caller\<close> while the rest of the loop does
  \<open>ivs\<close>.
\<close>

definition ChatModel_chat ::
    "'e libs \<Rightarrow> ChatModel \<Rightarrow> call_args \<Rightarrow> thread_id \<Rightarrow> 'e interference list \<Rightarrow> 'e world
      \<Rightarrow> (pyerror + Response list) option \<times> 'e world" where
  "ChatModel_chat L self a caller ivs w =
    (case run_coroutine_threadsafe (ChatModel_achat L self a) (self_loop self) w of
      (task, w1) \<Rightarrow> future_result task caller ivs w1)"


text \<open>
  The instance's loop can answer a caller: it runs, and the caller is not its thread.
\<close>

definition loop_answers :: "ChatModel \<Rightarrow> thread_id \<Rightarrow> 'e world \<Rightarrow> bool" where
  "loop_answers self caller w =
    (self_loop self < length (loops w) \<and> running (loops w ! self_loop self) \<and>
     \<not> on_loop_thread caller (loops w ! self_loop self))"

text \<open>
  What the caller of \<open>chat\<close> gets for a task the loop has run: nothing when the loop's
  thread ended before the future was set, else the outcome as the future holds it.
\<close>

definition through_bridge ::
    "(pyerror + Response list) option \<times> 'e \<times> 'e interference list
      \<Rightarrow> (pyerror + Response list) option" where
  "through_bridge t =
    (case t of
       (None, e1, rest) \<Rightarrow> None
     | (Some out, e1, rest) \<Rightarrow>
         if stops_loop out then None
         else (case interfere rest e1 of
                 None \<Rightarrow> None
               | Some p \<Rightarrow> Some (set_concurrent_future_state out)))"

section \<open>distill/run\_exp.py\<close>

text \<open>
  \<open>run_exp\<close> only calls into modules of the repository it imports (\<open>api\<close>, \<open>data\<close>,
  \<open>hparams\<close>, \<open>distiller\<close>); they are parameters here, each an action on a state \<open>'w\<close>
  that returns a value or raises.
\<close>

type_synonym ('w, 'a) action = "'w \<Rightarrow> (pyerror + 'a) \<times> 'w"

definition then_do :: "('w, 'a) action \<Rightarrow> ('a \<Rightarrow> ('w, 'b) action) \<Rightarrow> ('w, 'b) action" where
  "then_do m f w = (case m w of (Inl e, w') \<Rightarrow> (Inl e, w') | (Inr x, w') \<Rightarrow> f x w')"

record 'w exp_lib =
  run_api :: "('w, pyval) action"
  get_model_infos :: "pyval \<Rightarrow> ('w, pyval) action"
  parse_client :: "pyval \<Rightarrow> ('w, pyval) action"
  get_origin_infer_args ::
    "(string \<rightharpoonup> pyval) option \<Rightarrow> ('w, pyval \<times> pyval \<times> pyval \<times> pyval \<times> pyval) action"
  get_qa_pairs :: "pyval \<Rightarrow> pyval \<Rightarrow> ('w, pyval \<times> pyval) action"
  Distiller :: "pyval \<Rightarrow> pyval \<Rightarrow> pyval \<Rightarrow> pyval \<Rightarrow> ('w, pyval) action"
  distill :: "pyval \<Rightarrow> ('w, unit) action"

text \<open>Lines 22 to 27: everything up to the construction of the distiller.\<close>

definition run_exp_setup :: "'w exp_lib \<Rightarrow> (string \<rightharpoonup> pyval) option \<Rightarrow> ('w, pyval) action" where
  "run_exp_setup X args =
    then_do (run_api X) (\<lambda>router.
    then_do (get_model_infos X router) (\<lambda>model_infos.
    then_do (parse_client X model_infos) (\<lambda>clients.
    then_do (get_origin_infer_args X args)
      (\<lambda>(model_args, data_args, finetuning_args, generating_args, distill_args).
    then_do (get_qa_pairs X model_args data_args) (\<lambda>(questions, answers).
    Distiller X distill_args clients questions answers)))))"

text \<open>\<open>run_exp(args, max_try)\<close>: the setup, then line 28, \<open>await distiller.distill()\<close>.\<close>

definition run_exp :: "'w exp_lib \<Rightarrow> (string \<rightharpoonup> pyval) option \<Rightarrow> int \<Rightarrow> ('w, unit) action" where
  "run_exp X args max_try = then_do (run_exp_setup X args) (\<lambda>distiller. distill X distiller)"

section \<open>log/logger.py\<close>

text \<open>
  The files and the registry of the \<open>logging\<close> module. A handler carries the identity
  of its object, since \<open>addHandler\<close> skips a handler that is already in the list.
  The logger returned by \<open>getLogger\<close> is the registry's own object, given here by the name
  it is registered under.
\<close>

datatype stream = Stderr | Stdout

datatype handler_kind = FileHandler string string string | StreamHandler stream

record handler =
  h_id :: nat
  h_kind :: handler_kind
  h_level :: nat
  h_formatter :: "string option"

record logger =
  lg_level :: nat
  lg_handlers :: "handler list"

record log_world =
  files :: "string \<rightharpoonup> string"
  can_open :: "string \<Rightarrow> bool"
  loggers :: "string \<rightharpoonup> logger"
  next_id :: nat

definition NOTSET :: nat where "NOTSET = 0"
definition DEBUG :: nat where "DEBUG = 10"
definition INFO :: nat where "INFO = 20"

text \<open>\<open>with open(log_file, 'w', encoding='utf-8') as f: f.write('')\<close>\<close>

definition truncate_file :: "string \<Rightarrow> log_world \<Rightarrow> pyerror + log_world" where
  "truncate_file log_file w =
    (if can_open w log_file then Inr (w\<lparr>files := (files w)(log_file \<mapsto> [])\<rparr>)
     else Inl (OSError log_file))"

text \<open>\<open>logging.getLogger(name)\<close>: the registered logger, created at the first request.\<close>

definition getLogger :: "string \<Rightarrow> log_world \<Rightarrow> log_world" where
  "getLogger name w =
    (case loggers w name of
       Some l \<Rightarrow> w
     | None \<Rightarrow>
        w\<lparr>loggers := (loggers w)(name \<mapsto> \<lparr>lg_level = NOTSET, lg_handlers = []\<rparr>)\<rparr>)"

definition Logger_setLevel :: "string \<Rightarrow> nat \<Rightarrow> log_world \<Rightarrow> log_world" where
  "Logger_setLevel name lvl w =
    (case loggers w name of
       None \<Rightarrow> w
     | Some l \<Rightarrow> w\<lparr>loggers := (loggers w)(name \<mapsto> l\<lparr>lg_level := lvl\<rparr>)\<rparr>)"

text \<open>
  \<open>logging.FileHandler(log_file, encoding=...)\<close> opens the file for appending, which
  creates it when it is absent, and \<open>logging.StreamHandler(stream)\<close>; a new handler has
  level \<open>NOTSET\<close> and no formatter.
\<close>

definition FileHandler_new :: "string \<Rightarrow> string \<Rightarrow> log_world \<Rightarrow> (pyerror + handler) \<times> log_world" where
  "FileHandler_new log_file enc w =
    (if can_open w log_file then
       (Inr \<lparr>h_id = next_id w, h_kind = FileHandler log_file ''a'' enc, h_level = NOTSET,
             h_formatter = None\<rparr>,
        w\<lparr>next_id := Suc (next_id w),
          files := (case files w log_file of
                      None \<Rightarrow> (files w)(log_file \<mapsto> [])
                    | Some c \<Rightarrow> files w)\<rparr>)
     else (Inl (OSError log_file), w))"

definition StreamHandler_new :: "stream \<Rightarrow> log_world \<Rightarrow> handler \<times> log_world" where
  "StreamHandler_new s w =
    (\<lparr>h_id = next_id w, h_kind = StreamHandler s, h_level = NOTSET, h_formatter = None\<rparr>,
     w\<lparr>next_id := Suc (next_id w)\<rparr>)"

text \<open>\<open>Logger.addHandler\<close>: appended unless that very handler is attached already.\<close>

definition addHandler :: "string \<Rightarrow> handler \<Rightarrow> log_world \<Rightarrow> log_world" where
  "addHandler name h w =
    (case loggers w name of
       None \<Rightarrow> w
     | Some l \<Rightarrow>
        if h_id h \<in> set (map h_id (lg_handlers l)) then w
        else w\<lparr>loggers := (loggers w)(name \<mapsto> l\<lparr>lg_handlers := lg_handlers l @ [h]\<rparr>)\<rparr>)"

definition log_format :: string where
  "log_format = ''%(asctime)s - %(name)s - %(levelname)s - %(message)s''"

definition setup_logger :: "string \<Rightarrow> log_world \<Rightarrow> (pyerror + string) \<times> log_world" where
  "setup_logger log_file w =
    (case truncate_file log_file w of
       Inl e \<Rightarrow> (Inl e, w)
     | Inr w1 \<Rightarrow>
        (let log = ''logger'';
             w2 = getLogger log w1;
             w3 = Logger_setLevel log DEBUG w2;
             formatter = log_format
         in case FileHandler_new log_file ''utf-8'' w3 of
              (Inl e, w4) \<Rightarrow> (Inl e, w4)
            | (Inr fileHandler0, w4) \<Rightarrow>
               (case StreamHandler_new Stderr w4 of
                 (streamHandler0, w5) \<Rightarrow>
                  (let fileHandler1 = fileHandler0\<lparr>h_level := INFO\<rparr>;
                       streamHandler1 = streamHandler0\<lparr>h_level := DEBUG\<rparr>;
                       fileHandler = fileHandler1\<lparr>h_formatter := Some formatter\<rparr>;
                       streamHandler = streamHandler1\<lparr>h_formatter := Some formatter\<rparr>;
                       w6 = addHandler log fileHandler w5;
                       w7 = addHandler log streamHandler w6
                   in (Inr log, w7)))))"

text \<open>Every handler attached to a registered logger is an object that exists already.\<close>

definition handlers_exist :: "log_world \<Rightarrow> bool" where
  "handlers_exist w =
    (\<forall>name l. loggers w name = Some l \<longrightarrow> (\<forall>h \<in> set (lg_handlers l). h_id h < next_id w))"

definition attached :: "log_world \<Rightarrow> string \<Rightarrow> handler list" where
  "attached w name = (case loggers w name of None \<Rightarrow> [] | Some l \<Rightarrow> lg_handlers l)"

section \<open>Notions used in the statements\<close>

text \<open>The value \<open>_generate\<close> gets for \<open>max_new_tokens\<close>: the keyword argument, or 4096.\<close>

definition max_new_tokens_arg :: "call_args \<Rightarrow> pyval" where
  "max_new_tokens_arg a =
    (case input_kwargs a ''max_new_tokens'' of None \<Rightarrow> PyInt 4096 | Some v \<Rightarrow> v)"

text \<open>
  The library behaves: the stop tokens are found, \<open>SamplingParams\<close> accepts what it is
  given, and the instance's \<open>generating_args\<close> has the five keys \<open>_generate\<close> reads.
\<close>

definition library_returns :: "vllm_lib \<Rightarrow> VllmEngine \<Rightarrow> bool" where
  "library_returns lib self =
    ((\<exists>ids. lib_get_stop_token_ids lib (template self) (tokenizer self) = Inr ids) \<and>
     (\<forall>kw. \<exists>sp. lib_SamplingParams lib kw = Inr sp) \<and>
     (\<forall>k \<in> set [''repetition_penalty'', ''temperature'', ''top_p'', ''top_k'',
                  ''skip_special_tokens'']. generating_args self k \<noteq> None))"

text \<open>
  The configuration and the tokenizer module load, and the module has its two entries,
  the tokenizer being an object.
\<close>

definition loaders_return :: "vllm_lib \<Rightarrow> model_args \<Rightarrow> bool" where
  "loaders_return lib margs =
    ((\<exists>qc. lib_load_config lib margs = Inr qc) \<and>
     (\<exists>tm l. lib_load_tokenizer lib margs = Inr tm \<and> tm ''tokenizer'' = Some (PyObj l) \<and>
           tm ''processor'' \<noteq> None))"

text \<open>What a generator yields before it ends, and whether it ends without raising.\<close>

fun yielded :: "'a agen \<Rightarrow> 'a list" where
  "yielded Stop = []"
| "yielded (Raise e) = []"
| "yielded (Yield x g) = x # yielded g"

fun ends_normally :: "'a agen \<Rightarrow> bool" where
  "ends_normally Stop = True"
| "ends_normally (Raise e) = False"
| "ends_normally (Yield x g) = ends_normally g"

text \<open>
  A stream is cumulative from the text \<open>t\<close> when every item has a first output and the
  text of each extends the text before it; \<open>final_text\<close> is the last of these texts.
\<close>

fun cumulative :: "string \<Rightarrow> RequestOutput agen \<Rightarrow> bool" where
  "cumulative t Stop = True"
| "cumulative t (Raise e) = True"
| "cumulative t (Yield r g) =
    (case ro_outputs r of
       [] \<Rightarrow> False
     | output # _ \<Rightarrow> take (length t) (out_text output) = t \<and> cumulative (out_text output) g)"

fun final_text :: "string \<Rightarrow> RequestOutput agen \<Rightarrow> string" where
  "final_text t Stop = t"
| "final_text t (Raise e) = t"
| "final_text t (Yield r g) =
    (case ro_outputs r of [] \<Rightarrow> t | output # _ \<Rightarrow> final_text (out_text output) g)"

text \<open>
  The exceptions that reach the caller of \<open>chat\<close> as the coroutine raised them: all but
  those that end the loop's thread and those the bridge replaces.
\<close>

fun handed_over_unchanged :: "pyerror \<Rightarrow> bool" where
  "handed_over_unchanged (SystemExit code) = False"
| "handed_over_unchanged KeyboardInterrupt = False"
| "handed_over_unchanged (AsyncioCancelledError m) = False"
| "handed_over_unchanged (FuturesCancelledError m) = False"
| "handed_over_unchanged (FuturesInvalidStateError m) = False"
| "handed_over_unchanged e = True"

section \<open>Concrete inputs\<close>

definition sample_generating_args :: "string \<rightharpoonup> pyval" where
  "sample_generating_args =
    map_of [(''repetition_penalty'', PyFloat 1), (''temperature'', PyFloat 0),
            (''top_p'', PyFloat 1), (''top_k'', PyInt 50),
            (''skip_special_tokens'', PyBool True)]"

definition sample_engine :: VllmEngine where
  "sample_engine =
    \<lparr>can_generate = True, tokenizer = PyObj ''tokenizer'', processor = PyNone,
     template = PyObj ''template'', generating_args = sample_generating_args,
     model = PyObj ''AsyncLLMEngine'', lora_request = PyNone\<rparr>"

text \<open>An engine stream of two cumulative results for a prompt of three tokens.\<close>

definition sample_stream :: "RequestOutput agen" where
  "sample_stream =
    Yield \<lparr>ro_prompt_token_ids = [1, 2, 3],
           ro_outputs = [\<lparr>out_text = ''He'', out_token_ids = [7], out_finish_reason = None\<rparr>]\<rparr>
     (Yield \<lparr>ro_prompt_token_ids = [1, 2, 3],
             ro_outputs = [\<lparr>out_text = ''Hello'', out_token_ids = [7, 8],
                            out_finish_reason = Some ''stop''\<rparr>]\<rparr>
       Stop)"

definition sample_lib :: vllm_lib where
  "sample_lib =
    \<lparr>lib_load_config = (\<lambda>m. Inr None),
     lib_load_tokenizer =
       (\<lambda>m. Inr (map_of [(''tokenizer'', PyObj ''tokenizer''), (''processor'', PyNone)])),
     lib_init_tail = (\<lambda>m d c tok proc tmpl g. Inr sample_engine),
     lib_get_stop_token_ids = (\<lambda>tmpl tok. Inr (PyList [PyInt 2])),
     lib_SamplingParams = (\<lambda>kw. Inr (PyObj ''SamplingParams'')),
     lib_model_generate = (\<lambda>m p mm sp lora. Inr sample_stream)\<rparr>"

definition sample_request :: call_args where
  "sample_request =
    \<lparr>messages = [[(''role'', ''user''), (''content'', ''Say hello'')]],
     system = None, tools = None, images = None, videos = None, audios = None,
     input_kwargs = Map.empty\<rparr>"

text \<open>
  A library whose \<open>SamplingParams\<close> checks what lines 139 and 141 say it requires,
  a positive \<open>repetition_penalty\<close> and a positive \<open>top_p\<close>, and a request with a
  negative \<open>top_p\<close>.
\<close>

fun positive :: "pyval \<Rightarrow> bool" where
  "positive (PyInt i) = (0 < i)"
| "positive (PyFloat x) = (0 < x)"
| "positive v = False"

definition validating_lib :: vllm_lib where
  "validating_lib =
    sample_lib\<lparr>lib_SamplingParams :=
      (\<lambda>kw. if \<not> positive (sp_repetition_penalty kw)
              then Inl (ValueError ''repetition_penalty must be greater than zero'')
            else if \<not> positive (sp_top_p kw)
              then Inl (ValueError ''top_p must be in (0, 1]'')
            else Inr (PyObj ''SamplingParams''))\<rparr>"

definition negative_top_p_request :: call_args where
  "negative_top_p_request =
    sample_request\<lparr>input_kwargs := map_of [(''top_p'', PyFloat (- 1))]\<rparr>"

definition sample_model_args :: model_args where
  "sample_model_args =
    \<lparr>model_name_or_path = Some ''base-model'', infer_backend = ''huggingface'',
     infer_dtype = ''auto'', model_other = [(''cache_dir'', PyNone)]\<rparr>"

definition sample_data_args :: data_args where
  "sample_data_args = \<lparr>data_template = None, data_other = [(''cutoff_len'', PyInt 2048)]\<rparr>"

definition sample_response :: Response where
  "sample_response =
    \<lparr>response_text = ''Hello'', response_length = 2, prompt_length = 3,
     finish_reason = Some ''stop''\<rparr>"

text \<open>
  A backend whose state counts the requests it has served; the Hugging Face engine
  answers every request with the same response.
\<close>

definition sample_libs :: "nat libs" where
  "sample_libs =
    \<lparr>get_infer_args =
       (\<lambda>args. Inr (sample_model_args, sample_data_args, ''sft'', sample_generating_args)),
     HuggingfaceEngine_init = (\<lambda>m d g. Inr (PyObj ''HuggingfaceEngine'')),
     HuggingfaceEngine_chat = (\<lambda>h a. Last (\<lambda>e. (Inr [sample_response], Suc e))),
     vllm = sample_lib\<rparr>"

text \<open>The same, with an engine that raises the given exception on every request.\<close>

definition raising_libs :: "pyerror \<Rightarrow> nat libs" where
  "raising_libs err =
    sample_libs\<lparr>HuggingfaceEngine_chat := (\<lambda>h a. Last (\<lambda>e. (Inl err, Suc e)))\<rparr>"

text \<open>
  The same, with an engine that awaits once before it answers, and answers with as many
  tokens as the backend's state says.
\<close>

definition awaiting_libs :: "nat libs" where
  "awaiting_libs =
    sample_libs\<lparr>HuggingfaceEngine_chat :=
      (\<lambda>h a. Seg (\<lambda>e. (None, e))
               (Last (\<lambda>e. (Inr [sample_response\<lparr>response_length := e\<rparr>], e))))\<rparr>"

text \<open>The same, configured for the vllm backend.\<close>

definition vllm_libs :: "nat libs" where
  "vllm_libs =
    sample_libs\<lparr>get_infer_args :=
      (\<lambda>args. Inr (sample_model_args\<lparr>infer_backend := ''vllm''\<rparr>, sample_data_args, ''sft'',
                    sample_generating_args))\<rparr>"

definition sample_world :: "nat world" where
  "sample_world =
    \<lparr>loops = [], threads = [], futures = Map.empty, next_future = 0, backend = 0\<rparr>"

definition sample_model :: ChatModel where
  "sample_model =
    \<lparr>engine_type = ''huggingface'', engine = Hf (PyObj ''HuggingfaceEngine''),
     self_loop = 0, self_thread = 0\<rparr>"

text \<open>The world once \<open>sample_model\<close> has been constructed in \<open>sample_world\<close>.\<close>

definition started_world :: "nat world" where
  "started_world =
    \<lparr>loops = [\<lparr>running = True, runner = Some 0\<rparr>],
     threads = [\<lparr>thr_target = ''_start_background_loop'', thr_loop = 0, thr_daemon = True\<rparr>],
     futures = Map.empty, next_future = 0, backend = 0\<rparr>"

text \<open>An instance that holds a vllm engine, on the loop of \<open>started_world\<close>.\<close>

definition vllm_model :: ChatModel where
  "vllm_model =
    \<lparr>engine_type = ''vllm'', engine = Vllm sample_engine, self_loop = 0, self_thread = 0\<rparr>"

text \<open>The modules behind \<open>run_exp\<close>, on a state that counts the calls of \<open>distill\<close>.\<close>

definition sample_exp_lib :: "nat exp_lib" where
  "sample_exp_lib =
    \<lparr>run_api = (\<lambda>w. (Inr (PyObj ''router''), w)),
     get_model_infos = (\<lambda>r w. (Inr (PyList []), w)),
     parse_client = (\<lambda>i w. (Inr (PyList []), w)),
     get_origin_infer_args = (\<lambda>a w. (Inr (PyNone, PyNone, PyNone, PyNone, PyNone), w)),
     get_qa_pairs = (\<lambda>m d w. (Inr (PyList [], PyList []), w)),
     Distiller = (\<lambda>d c q a w. (Inr (PyObj ''distiller''), w)),
     distill = (\<lambda>d w. (Inl (LibraryError ''timeout''), Suc w))\<rparr>"

definition sample_log_world :: log_world where
  "sample_log_world =
    \<lparr>files = map_of [(''run.log'', ''old contents'')], can_open = (\<lambda>p. True),
     loggers = Map.empty, next_id = 0\<rparr>"

section \<open>The vllm generation path\<close>

subsection \<open>Undefined names\<close>

lemma load_global_prompt_ids: "load_global ''prompt_ids'' = Inl (NameError ''prompt_ids'')"
  by (simp add: load_global_def vllm_engine_globals_def python_builtins_def)

lemma load_global_get_template:
  "load_global ''get_template_and_fix_tokenizer'' =
    Inl (NameError ''get_template_and_fix_tokenizer'')"
  by (simp add: load_global_def vllm_engine_globals_def python_builtins_def)

lemma load_global_QuantizationMethod:
  "load_global ''QuantizationMethod'' = Inl (NameError ''QuantizationMethod'')"
  by (simp add: load_global_def vllm_engine_globals_def python_builtins_def)

lemma bind_Inl: "bind (Inl e) f = Inl e"
  by (simp add: bind_def)

lemma bind_Inr: "bind (Inr x) f = f x"
  by (simp add: bind_def)

lemma bind_returns: "\<not> isl m \<Longrightarrow> bind m f = f (projr m)"
  by (cases m) (simp_all add: bind_def)

lemma generate_cases:
  "VllmEngine_generate lib self a =
    (case generate_sampling_params lib self a of
       Inl e \<Rightarrow> Inl e
     | Inr sp \<Rightarrow> Inl (NameError ''prompt_ids''))"
  by (simp add: VllmEngine_generate_def load_global_prompt_ids bind_def split: sum.splits)

lemma chat_of_generate:
  "VllmEngine_generate lib self a = Inl e \<Longrightarrow> VllmEngine_chat lib self a = Inl e"
  by (simp add: VllmEngine_chat_def bind_Inl)

lemma stream_chat_of_generate:
  "VllmEngine_generate lib self a = Inl e \<Longrightarrow> VllmEngine_stream_chat lib self a = Raise e"
  by (simp add: VllmEngine_stream_chat_def)

lemma fst_pop: "fst (pop d k x) = (case d k of None \<Rightarrow> x | Some v \<Rightarrow> v)"
  by (simp add: pop_def split: option.splits)

lemma snd_pop: "snd (pop d k x) k' = (if k' = k then None else d k')"
  by (simp add: pop_def split: option.splits)

lemma arg_or_default_returns: "d k \<noteq> None \<Longrightarrow> \<not> isl (arg_or_default x d k)"
  by (auto simp: arg_or_default_def getitem_def)

lemma sampling_params_when_library_returns:
  assumes "library_returns lib self"
  shows "if truthy (max_new_tokens_arg a)
         then (\<exists>sp. generate_sampling_params lib self a = Inr sp)
         else generate_sampling_params lib self a = Inl (UnboundLocalError ''max_tokens'')"
proof -
  let ?d = "generating_args self"
  from assms obtain ids
    where ids: "lib_get_stop_token_ids lib (template self) (tokenizer self) = Inr ids"
    by (auto simp: library_returns_def)
  from assms have sp: "\<And>kw. \<exists>sp. lib_SamplingParams lib kw = Inr sp"
    by (auto simp: library_returns_def)
  from assms have keys: "?d ''repetition_penalty'' \<noteq> None" "?d ''temperature'' \<noteq> None"
    "?d ''top_p'' \<noteq> None" "?d ''top_k'' \<noteq> None" "?d ''skip_special_tokens'' \<noteq> None"
    by (auto simp: library_returns_def)
  from keys(5) obtain sst where sst: "getitem ?d ''skip_special_tokens'' = Inr sst"
    by (auto simp: getitem_def)
  have args: "\<And>x f. bind (arg_or_default x ?d ''repetition_penalty'') f =
                 f (projr (arg_or_default x ?d ''repetition_penalty''))"
    "\<And>x f. bind (arg_or_default x ?d ''temperature'') f =
                 f (projr (arg_or_default x ?d ''temperature''))"
    "\<And>x f. bind (arg_or_default x ?d ''top_p'') f = f (projr (arg_or_default x ?d ''top_p''))"
    "\<And>x f. bind (arg_or_default x ?d ''top_k'') f = f (projr (arg_or_default x ?d ''top_k''))"
    using keys by (simp_all add: arg_or_default_returns bind_returns)
  show ?thesis
    unfolding generate_sampling_params_def Let_def case_prod_beta max_new_tokens_arg_def
    using sp
    by (simp add: args fst_pop snd_pop ids sst load_local_def bind_Inl bind_Inr)
qed

lemma generate_when_library_returns:
  assumes "library_returns lib self"
  shows "VllmEngine_generate lib self a =
    Inl (if truthy (max_new_tokens_arg a) then NameError ''prompt_ids''
         else UnboundLocalError ''max_tokens'')"
  using sampling_params_when_library_returns[OF assms, of a]
  by (auto simp: generate_cases split: if_splits)

lemma init_raises: "\<exists>e. VllmEngine_init lib margs dargs stage gen_args = Inl e"
  by (simp add: VllmEngine_init_def bind_def load_global_get_template
      load_global_QuantizationMethod split: sum.splits option.splits)

lemma init_NameError:
  assumes "loaders_return lib margs"
    and "VllmEngine_init lib margs dargs stage gen_args = Inl e"
  shows "e = NameError ''QuantizationMethod'' \<or> e = NameError ''get_template_and_fix_tokenizer''"
  using assms
  by (auto simp: VllmEngine_init_def loaders_return_def bind_def getitem_def
      load_global_get_template load_global_QuantizationMethod
      split: sum.splits option.splits if_splits)

subsection \<open>What the loops of chat and stream\_chat do with a stream\<close>

lemma drain_ends_normally:
  "ends_normally g \<Longrightarrow>
    drain fo g = Inr (if yielded g = [] then fo else Some (last (yielded g)))"
  by (induction g arbitrary: fo) simp_all

lemma collect_results_last:
  assumes "ends_normally g" and "yielded g \<noteq> []"
  shows "collect_results g =
    Inr (map (to_response (last (yielded g))) (ro_outputs (last (yielded g))))"
  using assms by (simp add: collect_results_def drain_ends_normally bind_Inr)

lemma stream_loop_concat:
  "cumulative t g \<Longrightarrow> t @ concat (yielded (stream_loop t g)) = final_text t g"
proof (induction g arbitrary: t)
  case (Yield r g)
  then obtain first rest where out: "ro_outputs r = first # rest"
    by (cases "ro_outputs r") auto
  with Yield.prems have pre: "take (length t) (out_text first) = t"
    and cum: "cumulative (out_text first) g" by auto
  have "t @ drop (length t) (out_text first) = out_text first"
    using pre append_take_drop_id[of "length t" "out_text first"] by simp
  then have "t @ drop (length t) (out_text first) @
      concat (yielded (stream_loop (out_text first) g)) =
      out_text first @ concat (yielded (stream_loop (out_text first) g))"
    by (metis append_assoc)
  with Yield.IH[OF cum] out show ?case by simp
qed simp_all

text \<open>
  Claim C2, as stated, at an argument list. With a library whose \<open>SamplingParams\<close>
  checks its arguments, a call with \<open>top_p = -1.0\<close> ends in the library's
  \<open>ValueError\<close>, raised at line 134, before line 150 reads \<open>prompt_ids\<close>: not every
  argument list ends in a \<open>NameError\<close>.
\<close>

theorem vllm_generation_not_always_NameError:
  "VllmEngine_chat validating_lib sample_engine negative_top_p_request =
     Inl (ValueError ''top_p must be in (0, 1]'') \<and>
   VllmEngine_stream_chat validating_lib sample_engine negative_top_p_request =
     Raise (ValueError ''top_p must be in (0, 1]'') \<and>
   \<not> is_NameError (ValueError ''top_p must be in (0, 1]'')"
proof -
  have "generate_sampling_params validating_lib sample_engine negative_top_p_request =
      Inl (ValueError ''top_p must be in (0, 1]'')"
    unfolding generate_sampling_params_def Let_def case_prod_beta
    by (simp add: fst_pop snd_pop negative_top_p_request_def sample_request_def
        validating_lib_def sample_lib_def sample_engine_def sample_generating_args_def
        arg_or_default_def getitem_def load_local_def bind_def py_or_def)
  then have "VllmEngine_generate validating_lib sample_engine negative_top_p_request =
      Inl (ValueError ''top_p must be in (0, 1]'')"
    by (simp add: generate_cases)
  then show ?thesis
    by (simp add: chat_of_generate stream_chat_of_generate)
qed

text \<open>
  Claim C2, amended. For every engine, library and argument list, \<open>chat\<close> and
  \<open>stream_chat\<close> end in an exception and never in a result: \<open>stream_chat\<close> raises it
  before its first yield. The exception is the \<open>NameError\<close> for \<open>prompt_ids\<close> unless
  building the sampling parameters (lines 107 to 147) has raised before, and then it is
  that exception. When the library returns from every call made there, it is a
  \<open>NameError\<close> for every argument list: the one for \<open>prompt_ids\<close>, or, when
  \<open>max_new_tokens\<close> is given false, the \<open>UnboundLocalError\<close> (a \<open>NameError\<close>) for the
  local \<open>max_tokens\<close>. \<open>VllmEngine.__init__\<close> never returns an instance either, and
  when the configuration and the tokenizer load and the tokenizer is an object it raises
  the \<open>NameError\<close> for \<open>QuantizationMethod\<close> or for
  \<open>get_template_and_fix_tokenizer\<close>.
\<close>

theorem vllm_generation_always_raises:
  "(\<exists>e. VllmEngine_chat lib self a = Inl e \<and>
        VllmEngine_stream_chat lib self a = Raise e \<and>
        (generate_sampling_params lib self a = Inl e \<or> e = NameError ''prompt_ids'') \<and>
        (library_returns lib self \<longrightarrow>
           is_NameError e \<and>
           e = (if truthy (max_new_tokens_arg a) then NameError ''prompt_ids''
                else UnboundLocalError ''max_tokens''))) \<and>
   (\<exists>e. VllmEngine_init lib margs dargs stage gen_args = Inl e \<and>
        (loaders_return lib margs \<longrightarrow>
           is_NameError e \<and>
           (e = NameError ''QuantizationMethod'' \<or>
            e = NameError ''get_template_and_fix_tokenizer'')))"
proof
  obtain e where e: "VllmEngine_generate lib self a = Inl e"
    by (cases "generate_sampling_params lib self a") (auto simp: generate_cases)
  have src: "generate_sampling_params lib self a = Inl e \<or> e = NameError ''prompt_ids''"
    using e by (auto simp: generate_cases split: sum.splits)
  have lib: "is_NameError e \<and>
      e = (if truthy (max_new_tokens_arg a) then NameError ''prompt_ids''
           else UnboundLocalError ''max_tokens'')"
    if "library_returns lib self"
    using generate_when_library_returns[OF that, of a] e by auto
  show "\<exists>e. VllmEngine_chat lib self a = Inl e \<and>
        VllmEngine_stream_chat lib self a = Raise e \<and>
        (generate_sampling_params lib self a = Inl e \<or> e = NameError ''prompt_ids'') \<and>
        (library_returns lib self \<longrightarrow>
           is_NameError e \<and>
           e = (if truthy (max_new_tokens_arg a) then NameError ''prompt_ids''
                else UnboundLocalError ''max_tokens''))"
    using chat_of_generate[OF e] stream_chat_of_generate[OF e] src lib by blast
next
  obtain e where e: "VllmEngine_init lib margs dargs stage gen_args = Inl e"
    using init_raises by blast
  have "is_NameError e \<and>
      (e = NameError ''QuantizationMethod'' \<or> e = NameError ''get_template_and_fix_tokenizer'')"
    if "loaders_return lib margs"
    using init_NameError[OF that e] by auto
  with e show "\<exists>e. VllmEngine_init lib margs dargs stage gen_args = Inl e \<and>
        (loaders_return lib margs \<longrightarrow>
           is_NameError e \<and>
           (e = NameError ''QuantizationMethod'' \<or>
            e = NameError ''get_template_and_fix_tokenizer''))"
    by blast
qed

lemma sample_library_returns: "library_returns sample_lib sample_engine"
  by (simp add: library_returns_def sample_lib_def sample_engine_def sample_generating_args_def)

lemma sample_loaders_return: "loaders_return sample_lib sample_model_args"
  by (simp add: loaders_return_def sample_lib_def)

theorem vllm_generation_always_raises_witness:
  "library_returns sample_lib sample_engine \<and>
   loaders_return sample_lib sample_model_args \<and>
   VllmEngine_chat sample_lib sample_engine sample_request = Inl (NameError ''prompt_ids'') \<and>
   VllmEngine_stream_chat sample_lib sample_engine sample_request =
     Raise (NameError ''prompt_ids'') \<and>
   VllmEngine_init sample_lib sample_model_args sample_data_args ''sft'' sample_generating_args =
     Inl (NameError ''get_template_and_fix_tokenizer'')"
proof -
  have t: "truthy (max_new_tokens_arg sample_request)"
    by (simp add: max_new_tokens_arg_def sample_request_def)
  have nq: "VllmEngine_init sample_lib sample_model_args sample_data_args ''sft''
      sample_generating_args \<noteq> Inl (NameError ''QuantizationMethod'')"
    by (simp add: VllmEngine_init_def sample_lib_def bind_def getitem_def
        load_global_get_template)
  show ?thesis
    using vllm_generation_always_raises[of sample_lib sample_engine sample_request
        sample_model_args sample_data_args "''sft''" sample_generating_args]
      sample_library_returns sample_loaders_return t nq
    by auto
qed

text \<open>
  Claim C1, at a request. The engine would stream two cumulative results for the
  request, and the loop of \<open>chat\<close> turns that stream into the one \<open>Response\<close> the
  claim describes; \<open>chat\<close> itself raises the \<open>NameError\<close> for \<open>prompt_ids\<close> before the
  engine is asked.
\<close>

theorem chat_raises_at_sample_request:
  "VllmEngine_chat sample_lib sample_engine sample_request = Inl (NameError ''prompt_ids'') \<and>
   lib_model_generate sample_lib (model sample_engine) (PyList [PyInt 1, PyInt 2, PyInt 3])
     PyNone (PyObj ''SamplingParams'') (lora_request sample_engine) = Inr sample_stream \<and>
   collect_results sample_stream = Inr [sample_response]"
proof -
  have "VllmEngine_generate sample_lib sample_engine sample_request =
      Inl (NameError ''prompt_ids'')"
    using generate_when_library_returns[OF sample_library_returns, of sample_request]
    by (simp add: max_new_tokens_arg_def sample_request_def)
  then have "VllmEngine_chat sample_lib sample_engine sample_request =
      Inl (NameError ''prompt_ids'')"
    by (rule chat_of_generate)
  moreover have "collect_results sample_stream = Inr [sample_response]"
    by (simp add: collect_results_def sample_stream_def bind_def to_response_def
        sample_response_def)
  ultimately show ?thesis by (simp add: sample_lib_def)
qed

text \<open>
  Claim C6, at the same request. The loop of \<open>stream_chat\<close> would yield \<open>He\<close> and
  \<open>llo\<close>, which concatenate to the engine's final text; \<open>stream_chat\<close> itself yields
  nothing and raises the \<open>NameError\<close> for \<open>prompt_ids\<close>.
\<close>

theorem stream_chat_raises_at_sample_request:
  "VllmEngine_stream_chat sample_lib sample_engine sample_request =
     Raise (NameError ''prompt_ids'') \<and>
   yielded (VllmEngine_stream_chat sample_lib sample_engine sample_request) = [] \<and>
   final_text [] sample_stream = ''Hello'' \<and>
   yielded (stream_loop [] sample_stream) = [''He'', ''llo'']"
proof -
  have "VllmEngine_generate sample_lib sample_engine sample_request =
      Inl (NameError ''prompt_ids'')"
    using generate_when_library_returns[OF sample_library_returns, of sample_request]
    by (simp add: max_new_tokens_arg_def sample_request_def)
  then have "VllmEngine_stream_chat sample_lib sample_engine sample_request =
      Raise (NameError ''prompt_ids'')"
    by (rule stream_chat_of_generate)
  then show ?thesis by (simp add: sample_stream_def)
qed

section \<open>The facade\<close>

subsection \<open>One call\<close>

lemma chat_outcome:
  "fst (ChatModel_chat L self a caller ivs w) =
    (if loop_answers self caller w
     then through_bridge (run_task (ChatModel_achat L self a) ivs (backend w))
     else None)"
  by (simp add: ChatModel_chat_def run_coroutine_threadsafe_def future_result_def
      loop_answers_def through_bridge_def Let_def split: prod.splits option.splits)

lemma chat_backend:
  assumes "loop_answers self caller w"
    and "run_task (ChatModel_achat L self a) ivs (backend w) = (Some out, e1, rest)"
  shows "backend (snd (ChatModel_chat L self a caller ivs w)) =
    (if stops_loop out then e1
     else (case interfere rest e1 of None \<Rightarrow> e1 | Some (e2, rest') \<Rightarrow> e2))"
  using assms
  by (simp add: ChatModel_chat_def run_coroutine_threadsafe_def future_result_def
      loop_answers_def loop_stopped_def Let_def split: prod.splits option.splits)



lemma chat_returned_keeps_loops:
  "fst (ChatModel_chat L self a caller ivs w) = Some out \<Longrightarrow>
    loops (snd (ChatModel_chat L self a caller ivs w)) = loops w"
  by (simp add: ChatModel_chat_def run_coroutine_threadsafe_def future_result_def
      loop_stopped_def Let_def split: prod.splits option.splits if_splits)


subsection \<open>Construction\<close>

lemma init_world:
  assumes "ChatModel_init L args mnp tmpl w = (Inr self, w')"
  shows "self_loop self = length (loops w) \<and>
         self_thread self = length (threads w) \<and>
         loops w' = loops w @ [\<lparr>running = True, runner = Some (length (threads w))\<rparr>] \<and>
         threads w' = threads w @
           [\<lparr>thr_target = ''_start_background_loop'', thr_loop = length (loops w),
             thr_daemon = True\<rparr>] \<and>
         futures w' = futures w \<and> next_future w' = next_future w \<and> backend w' = backend w"
  using assms
  unfolding ChatModel_init_def new_event_loop_def Thread_start_def start_background_loop_def
    Let_def
  by (auto split: sum.splits prod.splits)

lemma init_answers:
  assumes "ChatModel_init L args mnp tmpl w = (Inr self, w')"
  shows "loop_answers self MainThread w'"
  using init_world[OF assms] by (simp add: loop_answers_def)

subsection \<open>Successive calls\<close>



subsection \<open>The vllm engine behind the facade\<close>

lemma drain_coro_collects:
  "fst (run_task (drain_coro fo g) [] e) =
    Some (bind (drain fo g)
      (\<lambda>final_output.
        case final_output of
          None \<Rightarrow> Inl (AttributeError ''outputs'')
        | Some x \<Rightarrow> Inr (map (to_response x) (ro_outputs x))))"
  by (induction g arbitrary: fo) (simp_all add: bind_def)

lemma vllm_coro_raises:
  "VllmEngine_generate lib self a = Inl err \<Longrightarrow>
    VllmEngine_chat_coro lib self a = Last (\<lambda>e. (Inl err, e))"
  by (simp add: VllmEngine_chat_coro_def)

lemma sample_generate:
  "VllmEngine_generate sample_lib sample_engine sample_request = Inl (NameError ''prompt_ids'')"
  using generate_when_library_returns[OF sample_library_returns, of sample_request]
  by (simp add: max_new_tokens_arg_def sample_request_def)

subsection \<open>The claims about the facade\<close>

lemma sample_init:
  "ChatModel_init sample_libs None None None sample_world = (Inr sample_model, started_world)"
  by (simp add: ChatModel_init_def sample_libs_def override_args_def select_engine_def
      sample_model_args_def bind_def new_event_loop_def Thread_start_def
      start_background_loop_def sample_world_def sample_model_def started_world_def)

lemma started_answers: "loop_answers sample_model MainThread started_world"
  by (simp add: loop_answers_def sample_model_def started_world_def)

lemma raising_run:
  "run_task (ChatModel_achat (raising_libs err) sample_model sample_request) [] 0 =
    (Some (Inl err), 1, [])"
  by (simp add: ChatModel_achat_def sample_model_def raising_libs_def)

text \<open>
  Claim C3, as stated, at an engine. When the engine raises \<open>asyncio\<close>'s
  \<open>CancelledError\<close> with a message, awaiting \<open>achat\<close> raises that exception, and the
  synchronous \<open>chat\<close> raises the \<open>CancelledError\<close> of \<open>concurrent.futures\<close> with no
  message: not exactly the exception \<open>achat\<close> raises.
\<close>

theorem chat_changes_cancellation:
  "fst (run_task (ChatModel_achat (raising_libs (AsyncioCancelledError ''aborted''))
          sample_model sample_request) [] (backend started_world)) =
     Some (Inl (AsyncioCancelledError ''aborted'')) \<and>
   fst (ChatModel_chat (raising_libs (AsyncioCancelledError ''aborted''))
          sample_model sample_request MainThread [] started_world) =
     Some (Inl (FuturesCancelledError [])) \<and>
   fst (ChatModel_chat (raising_libs (AsyncioCancelledError ''aborted''))
          sample_model sample_request MainThread [] started_world) \<noteq>
     fst (run_task (ChatModel_achat (raising_libs (AsyncioCancelledError ''aborted''))
          sample_model sample_request) [] (backend started_world))"
proof -
  have b: "backend started_world = 0" by (simp add: started_world_def)
  show ?thesis
    unfolding chat_outcome b
    by (simp add: started_answers raising_run through_bridge_def)
qed

text \<open>
  Claim C3, amended. The synchronous \<open>chat\<close> returns when the instance's loop runs and
  the caller is not the loop's own thread, and then what it returns is what the
  coroutine \<open>achat\<close> ends with on the same arguments once the loop has run it, as the
  bridge hands it over: the same list of responses, and the same exception except that
  \<open>asyncio\<close>'s \<open>CancelledError\<close> arrives as the \<open>CancelledError\<close> of
  \<open>concurrent.futures\<close> without its message, and the \<open>CancelledError\<close> and
  \<open>InvalidStateError\<close> of \<open>concurrent.futures\<close> arrive as those of \<open>asyncio\<close>.
  \<open>chat\<close> never returns when \<open>achat\<close> ends with \<open>SystemExit\<close> or \<open>KeyboardInterrupt\<close>,
  when the loop's thread ends for another reason before the future is set, when the
  loop does not run, or when \<open>chat\<close> is called on the loop's own thread. An instance as
  its constructor leaves it answers the main thread.
\<close>

theorem chat_returns_what_achat_yields_through_the_bridge:
  "fst (ChatModel_chat L self a caller ivs w) =
     (if loop_answers self caller w
      then through_bridge (run_task (ChatModel_achat L self a) ivs (backend w))
      else None) \<and>
   (loop_answers self caller w \<and>
    run_task (ChatModel_achat L self a) ivs (backend w) = (Some (Inr xs), e1, rest) \<and>
    interfere rest e1 \<noteq> None \<longrightarrow>
      fst (ChatModel_chat L self a caller ivs w) = Some (Inr xs)) \<and>
   (loop_answers self caller w \<and>
    run_task (ChatModel_achat L self a) ivs (backend w) = (Some (Inl err), e1, rest) \<and>
    interfere rest e1 \<noteq> None \<and> handed_over_unchanged err \<longrightarrow>
      fst (ChatModel_chat L self a caller ivs w) = Some (Inl err)) \<and>
   (loop_answers self caller w \<and>
    run_task (ChatModel_achat L self a) ivs (backend w) = (Some (Inl err), e1, rest) \<and>
    interfere rest e1 \<noteq> None \<and> \<not> stops_loop (Inl err) \<longrightarrow>
      fst (ChatModel_chat L self a caller ivs w) =
        Some (set_concurrent_future_state (Inl err))) \<and>
   (run_task (ChatModel_achat L self a) ivs (backend w) = (Some out, e1, rest) \<and>
    stops_loop out \<longrightarrow>
      fst (ChatModel_chat L self a caller ivs w) = None) \<and>
   (ChatModel_init L args mnp tmpl w0 = (Inr self, w) \<longrightarrow> loop_answers self MainThread w)"
proof (intro conjI impI)
  show "fst (ChatModel_chat L self a caller ivs w) =
     (if loop_answers self caller w
      then through_bridge (run_task (ChatModel_achat L self a) ivs (backend w))
      else None)"
    by (rule chat_outcome)
next
  assume "loop_answers self caller w \<and>
    run_task (ChatModel_achat L self a) ivs (backend w) = (Some (Inr xs), e1, rest) \<and>
    interfere rest e1 \<noteq> None"
  then show "fst (ChatModel_chat L self a caller ivs w) = Some (Inr xs)"
    by (auto simp: chat_outcome through_bridge_def)
next
  assume "loop_answers self caller w \<and>
    run_task (ChatModel_achat L self a) ivs (backend w) = (Some (Inl err), e1, rest) \<and>
    interfere rest e1 \<noteq> None \<and> handed_over_unchanged err"
  then show "fst (ChatModel_chat L self a caller ivs w) = Some (Inl err)"
    by (cases err) (auto simp: chat_outcome through_bridge_def)
next
  assume "loop_answers self caller w \<and>
    run_task (ChatModel_achat L self a) ivs (backend w) = (Some (Inl err), e1, rest) \<and>
    interfere rest e1 \<noteq> None \<and> \<not> stops_loop (Inl err)"
  then show "fst (ChatModel_chat L self a caller ivs w) =
      Some (set_concurrent_future_state (Inl err))"
    by (auto simp: chat_outcome through_bridge_def)
next
  assume "run_task (ChatModel_achat L self a) ivs (backend w) = (Some out, e1, rest) \<and>
    stops_loop out"
  then show "fst (ChatModel_chat L self a caller ivs w) = None"
    by (auto simp: chat_outcome through_bridge_def)
next
  assume "ChatModel_init L args mnp tmpl w0 = (Inr self, w)"
  then show "loop_answers self MainThread w"
    by (rule init_answers)
qed

text \<open>
  An engine that awaits once, on a loop where another task changes the backend from 0
  to 5 while the engine is suspended: \<open>chat\<close> returns the response the engine builds
  from the state it finds when it is resumed.
\<close>

theorem chat_returns_what_achat_yields_through_the_bridge_witness:
  "loop_answers sample_model MainThread started_world \<and>
   run_task (ChatModel_achat awaiting_libs sample_model sample_request)
     [Others (\<lambda>e. e), Others (\<lambda>e. 5)] (backend started_world) =
       (Some (Inr [sample_response\<lparr>response_length := 5\<rparr>]), 5, []) \<and>
   fst (ChatModel_chat awaiting_libs sample_model sample_request MainThread
          [Others (\<lambda>e. e), Others (\<lambda>e. 5)] started_world) =
     Some (Inr [sample_response\<lparr>response_length := 5\<rparr>]) \<and>
   fst (ChatModel_chat (raising_libs (LibraryError ''CUDA out of memory'')) sample_model
          sample_request MainThread [] started_world) =
     Some (Inl (LibraryError ''CUDA out of memory'')) \<and>
   fst (ChatModel_chat (raising_libs (FuturesInvalidStateError ''done'')) sample_model
          sample_request MainThread [] started_world) =
     Some (Inl (AsyncioInvalidStateError ''done'')) \<and>
   fst (ChatModel_chat (raising_libs KeyboardInterrupt) sample_model
          sample_request MainThread [] started_world) = None \<and>
   fst (ChatModel_chat sample_libs sample_model sample_request (Started 0) [] started_world) =
     None \<and>
   ChatModel_init sample_libs None None None sample_world = (Inr sample_model, started_world)"
proof -
  have b: "backend started_world = 0" by (simp add: started_world_def)
  have run: "run_task (ChatModel_achat awaiting_libs sample_model sample_request)
     [Others (\<lambda>e. e), Others (\<lambda>e. 5)] (backend started_world) =
       (Some (Inr [sample_response\<lparr>response_length := 5\<rparr>]), 5, [])"
    by (simp add: b ChatModel_achat_def sample_model_def awaiting_libs_def)
  have own: "\<not> loop_answers sample_model (Started 0) started_world"
    by (simp add: loop_answers_def sample_model_def started_world_def)
  have i: "interfere ([]::nat interference list) 5 \<noteq> None"
    "interfere ([]::nat interference list) 1 \<noteq> None" by simp_all
  note t = chat_returns_what_achat_yields_through_the_bridge
  have 1: "fst (ChatModel_chat awaiting_libs sample_model sample_request MainThread
          [Others (\<lambda>e. e), Others (\<lambda>e. 5)] started_world) =
     Some (Inr [sample_response\<lparr>response_length := 5\<rparr>])"
    using t[of awaiting_libs sample_model sample_request MainThread
        "[Others (\<lambda>e. e), Others (\<lambda>e. 5)]" started_world
        "[sample_response\<lparr>response_length := 5\<rparr>]" 5 "[]"] started_answers run i
    by blast
  have 2: "fst (ChatModel_chat (raising_libs (LibraryError ''CUDA out of memory'')) sample_model
          sample_request MainThread [] started_world) =
     Some (Inl (LibraryError ''CUDA out of memory''))"
    using t[of "raising_libs (LibraryError ''CUDA out of memory'')" sample_model sample_request
        MainThread "[]" started_world _ 1 "[]" "LibraryError ''CUDA out of memory''"]
      started_answers raising_run[of "LibraryError ''CUDA out of memory''"] i b
    by (simp add: through_bridge_def)
  have 3: "fst (ChatModel_chat (raising_libs (FuturesInvalidStateError ''done'')) sample_model
          sample_request MainThread [] started_world) =
     Some (Inl (AsyncioInvalidStateError ''done''))"
    using t[of "raising_libs (FuturesInvalidStateError ''done'')" sample_model sample_request
        MainThread "[]" started_world _ 1 "[]" "FuturesInvalidStateError ''done''"]
      started_answers raising_run[of "FuturesInvalidStateError ''done''"] i b
    by (simp add: through_bridge_def)
  have 4: "fst (ChatModel_chat (raising_libs KeyboardInterrupt) sample_model
          sample_request MainThread [] started_world) = None"
    using t[of "raising_libs KeyboardInterrupt" sample_model sample_request
        MainThread "[]" started_world _ 1 "[]" _ "Inl KeyboardInterrupt"]
      started_answers raising_run[of KeyboardInterrupt] b
    by (simp add: through_bridge_def)
  have 5: "fst (ChatModel_chat sample_libs sample_model sample_request (Started 0) []
      started_world) = None"
    using t[of sample_libs sample_model sample_request "Started 0" "[]" started_world] own
    by simp
  from started_answers run 1 2 3 4 5 sample_init show ?thesis by blast
qed

text \<open>
  Claim C4. With the arguments \<open>get_infer_args\<close> has parsed (the overrides leave
  \<open>infer_backend\<close> as it is), the constructor's outcome is the outcome of
  \<open>HuggingfaceEngine\<close>'s constructor when \<open>infer_backend\<close> is \<open>huggingface\<close>, that of
  \<open>VllmEngine\<close>'s when it is \<open>vllm\<close>, and the \<open>NotImplementedError\<close> naming the backend
  for every other value, with the state untouched. A constructed instance holds a
  Hugging Face engine exactly when the value is \<open>huggingface\<close>, a vllm engine exactly
  when it is \<open>vllm\<close>.
\<close>

theorem backend_chosen_by_infer_backend:
  assumes "get_infer_args L args = Inr (m0, d0, stage, g)"
    and "override_args mnp tmpl (m0, d0) = (m, d)"
  shows "infer_backend m = infer_backend m0 \<and>
    (infer_backend m0 = ''huggingface'' \<longrightarrow>
      fst (ChatModel_init L args mnp tmpl w) =
        (case HuggingfaceEngine_init L m d g of
           Inl e \<Rightarrow> Inl e
         | Inr h \<Rightarrow> Inr \<lparr>engine_type = ''huggingface'', engine = Hf h,
                         self_loop = length (loops w), self_thread = length (threads w)\<rparr>)) \<and>
    (infer_backend m0 = ''vllm'' \<longrightarrow>
      fst (ChatModel_init L args mnp tmpl w) =
        (case VllmEngine_init (vllm L) m d stage g of
           Inl e \<Rightarrow> Inl e
         | Inr v \<Rightarrow> Inr \<lparr>engine_type = ''vllm'', engine = Vllm v,
                         self_loop = length (loops w), self_thread = length (threads w)\<rparr>)) \<and>
    (infer_backend m0 \<noteq> ''huggingface'' \<and> infer_backend m0 \<noteq> ''vllm'' \<longrightarrow>
      ChatModel_init L args mnp tmpl w =
        (Inl (NotImplementedError (''Unknown backend: '' @ infer_backend m0)), w)) \<and>
    (\<forall>self w'. ChatModel_init L args mnp tmpl w = (Inr self, w') \<longrightarrow>
      ((\<exists>h. engine self = Hf h) \<longleftrightarrow> infer_backend m0 = ''huggingface'') \<and>
      ((\<exists>v. engine self = Vllm v) \<longleftrightarrow> infer_backend m0 = ''vllm''))"
proof -
  have same: "infer_backend m = infer_backend m0"
    using assms(2) by (auto simp: override_args_def split: option.splits)
  have hf: "fst (ChatModel_init L args mnp tmpl w) =
        (case HuggingfaceEngine_init L m d g of
           Inl e \<Rightarrow> Inl e
         | Inr h \<Rightarrow> Inr \<lparr>engine_type = ''huggingface'', engine = Hf h,
                         self_loop = length (loops w), self_thread = length (threads w)\<rparr>)"
    if "infer_backend m0 = ''huggingface''"
    using assms that same
    by (simp add: ChatModel_init_def select_engine_def bind_def new_event_loop_def
        Thread_start_def Let_def split: sum.splits)
  have vl: "fst (ChatModel_init L args mnp tmpl w) =
        (case VllmEngine_init (vllm L) m d stage g of
           Inl e \<Rightarrow> Inl e
         | Inr v \<Rightarrow> Inr \<lparr>engine_type = ''vllm'', engine = Vllm v,
                         self_loop = length (loops w), self_thread = length (threads w)\<rparr>)"
    if "infer_backend m0 = ''vllm''"
    using assms that same
    by (simp add: ChatModel_init_def select_engine_def bind_def new_event_loop_def
        Thread_start_def Let_def split: sum.splits)
  have other: "ChatModel_init L args mnp tmpl w =
        (Inl (NotImplementedError (''Unknown backend: '' @ infer_backend m0)), w)"
    if "infer_backend m0 \<noteq> ''huggingface'' \<and> infer_backend m0 \<noteq> ''vllm''"
    using assms that same
    by (simp add: ChatModel_init_def select_engine_def)
  have tag: "((\<exists>h. engine self = Hf h) \<longleftrightarrow> infer_backend m0 = ''huggingface'') \<and>
      ((\<exists>v. engine self = Vllm v) \<longleftrightarrow> infer_backend m0 = ''vllm'')"
    if "ChatModel_init L args mnp tmpl w = (Inr self, w')" for self w'
    using assms that same
    by (auto simp: ChatModel_init_def select_engine_def bind_def new_event_loop_def
        Thread_start_def Let_def split: sum.splits if_splits)
  from same hf vl other tag show ?thesis by blast
qed

theorem backend_chosen_by_infer_backend_witness:
  "get_infer_args sample_libs None =
     Inr (sample_model_args, sample_data_args, ''sft'', sample_generating_args) \<and>
   override_args None None (sample_model_args, sample_data_args) =
     (sample_model_args, sample_data_args) \<and>
   infer_backend sample_model_args = ''huggingface'' \<and>
   fst (ChatModel_init sample_libs None None None sample_world) = Inr sample_model"
proof -
  have a: "get_infer_args sample_libs None =
      Inr (sample_model_args, sample_data_args, ''sft'', sample_generating_args)"
    by (simp add: sample_libs_def)
  have b: "override_args None None (sample_model_args, sample_data_args) =
      (sample_model_args, sample_data_args)"
    by (simp add: override_args_def)
  have c: "infer_backend sample_model_args = ''huggingface''"
    by (simp add: sample_model_args_def)
  have d: "HuggingfaceEngine_init sample_libs sample_model_args sample_data_args
      sample_generating_args = Inr (PyObj ''HuggingfaceEngine'')"
    by (simp add: sample_libs_def)
  show ?thesis
    using backend_chosen_by_infer_backend[OF a b, of sample_world] a b c d
    by (simp add: sample_model_def sample_world_def)
qed

lemma then_do_Inl: "m w = (Inl e, w') \<Longrightarrow> then_do m f w = (Inl e, w')"
  by (simp add: then_do_def)

lemma then_do_Inr: "m w = (Inr x, w') \<Longrightarrow> then_do m f w = f x w'"
  by (simp add: then_do_def)

lemma sample_setup:
  "run_exp_setup sample_exp_lib None 0 = (Inr (PyObj ''distiller''), 0)"
  by (simp add: run_exp_setup_def then_do_def sample_exp_lib_def)

text \<open>
  Claim C5, as stated, at an engine. When the engine raises \<open>SystemExit\<close>, the exception
  does not reach the caller of \<open>chat\<close>: it ends the loop's thread, \<open>chat\<close> never returns,
  and neither does the next \<open>chat\<close> on the instance.
\<close>

theorem chat_never_returns_after_SystemExit:
  "fst (run_task (engine_chat (raising_libs (SystemExit 3)) (engine sample_model)
          sample_request) [] (backend started_world)) = Some (Inl (SystemExit 3)) \<and>
   fst (ChatModel_chat (raising_libs (SystemExit 3)) sample_model sample_request
          MainThread [] started_world) = None \<and>
   fst (ChatModel_chat (raising_libs (SystemExit 3)) sample_model sample_request MainThread []
          (snd (ChatModel_chat (raising_libs (SystemExit 3)) sample_model sample_request
                  MainThread [] started_world))) = None"
proof -
  have b: "backend started_world = 0" by (simp add: started_world_def)
  have r: "run_task (engine_chat (raising_libs (SystemExit 3)) (engine sample_model)
          sample_request) [] 0 = (Some (Inl (SystemExit 3)), 1, [])"
    using raising_run[of "SystemExit 3"] by (simp add: ChatModel_achat_def)
  have first: "fst (ChatModel_chat (raising_libs (SystemExit 3)) sample_model sample_request
          MainThread [] started_world) = None"
    by (simp add: chat_outcome started_answers b raising_run through_bridge_def)
  have dead: "\<not> loop_answers sample_model MainThread
      (snd (ChatModel_chat (raising_libs (SystemExit 3)) sample_model sample_request
              MainThread [] started_world))"
    by (simp add: ChatModel_chat_def run_coroutine_threadsafe_def future_result_def
        loop_answers_def loop_stopped_def sample_model_def started_world_def
        ChatModel_achat_def raising_libs_def)
  show ?thesis
    using r first dead by (simp add: b chat_outcome)
qed

text \<open>
  Claim C5, amended. No retry or recovery is performed. When the engine raises during
  \<open>achat\<close>, the engine has run once, and the caller of the synchronous \<open>chat\<close> gets that
  exception as the bridge hands it over: unchanged, except that the cancellation and
  invalid-state exceptions change class as the bridge prescribes, and that after
  \<open>SystemExit\<close>, \<open>KeyboardInterrupt\<close> or another end of the loop's thread \<open>chat\<close> never
  returns. In each case the backend is left as that one run (and what else ran on the
  loop) left it. \<open>run_exp\<close> does not depend on \<open>max_try\<close>; it runs the setup once and then
  \<open>distill\<close> once, whose outcome, an exception included, is its own.
\<close>

theorem no_retry_or_recovery:
  "(loop_answers self caller w \<and>
    run_task (engine_chat L (engine self) a) ivs (backend w) = (Some (Inl err), e1, rest) \<longrightarrow>
      fst (ChatModel_chat L self a caller ivs w) =
        (if stops_loop (Inl err) then None
         else (case interfere rest e1 of
                 None \<Rightarrow> None
               | Some p \<Rightarrow> Some (set_concurrent_future_state (Inl err)))) \<and>
      (handed_over_unchanged err \<longrightarrow> set_concurrent_future_state (Inl err) = Inl err) \<and>
      backend (snd (ChatModel_chat L self a caller ivs w)) =
        (if stops_loop (Inl err) then e1
         else (case interfere rest e1 of None \<Rightarrow> e1 | Some (e2, rest') \<Rightarrow> e2))) \<and>
   run_exp X args max_try = run_exp X args max_try' \<and>
   run_exp X args max_try w0 =
     (case run_exp_setup X args w0 of
        (Inl e, w1) \<Rightarrow> (Inl e, w1)
      | (Inr distiller, w1) \<Rightarrow> distill X distiller w1)"
proof (intro conjI impI)
  assume h: "loop_answers self caller w \<and>
    run_task (engine_chat L (engine self) a) ivs (backend w) = (Some (Inl err), e1, rest)"
  then have r: "run_task (ChatModel_achat L self a) ivs (backend w) = (Some (Inl err), e1, rest)"
    by (simp add: ChatModel_achat_def)
  show "fst (ChatModel_chat L self a caller ivs w) =
        (if stops_loop (Inl err) then None
         else (case interfere rest e1 of
                 None \<Rightarrow> None
               | Some p \<Rightarrow> Some (set_concurrent_future_state (Inl err))))"
    using h r by (simp add: chat_outcome through_bridge_def)
  show "backend (snd (ChatModel_chat L self a caller ivs w)) =
        (if stops_loop (Inl err) then e1
         else (case interfere rest e1 of None \<Rightarrow> e1 | Some (e2, rest') \<Rightarrow> e2))"
    using h chat_backend[OF _ r, of caller] by simp
next
  assume "handed_over_unchanged err"
  then show "set_concurrent_future_state (Inl err) = Inl err"
    by (cases err) simp_all
next
  show "run_exp X args max_try = run_exp X args max_try'"
    by (simp add: run_exp_def)
next
  show "run_exp X args max_try w0 =
     (case run_exp_setup X args w0 of
        (Inl e, w1) \<Rightarrow> (Inl e, w1)
      | (Inr distiller, w1) \<Rightarrow> distill X distiller w1)"
    by (simp add: run_exp_def then_do_def)
qed

theorem no_retry_or_recovery_witness:
  "loop_answers sample_model MainThread started_world \<and>
   run_task (engine_chat (raising_libs (LibraryError ''CUDA out of memory''))
       (engine sample_model) sample_request) [] (backend started_world) =
     (Some (Inl (LibraryError ''CUDA out of memory'')), 1, []) \<and>
   handed_over_unchanged (LibraryError ''CUDA out of memory'') \<and>
   fst (ChatModel_chat (raising_libs (LibraryError ''CUDA out of memory'')) sample_model
          sample_request MainThread [] started_world) =
     Some (Inl (LibraryError ''CUDA out of memory'')) \<and>
   backend (snd (ChatModel_chat (raising_libs (LibraryError ''CUDA out of memory''))
                   sample_model sample_request MainThread [] started_world)) = 1 \<and>
   run_exp sample_exp_lib None 3 0 = (Inl (LibraryError ''timeout''), 1)"
proof -
  have b: "backend started_world = 0" by (simp add: started_world_def)
  have r: "run_task (engine_chat (raising_libs (LibraryError ''CUDA out of memory''))
       (engine sample_model) sample_request) [] (backend started_world) =
     (Some (Inl (LibraryError ''CUDA out of memory'')), 1, [])"
    using raising_run[of "LibraryError ''CUDA out of memory''"]
    by (simp add: ChatModel_achat_def b)
  have d: "distill sample_exp_lib (PyObj ''distiller'') 0 = (Inl (LibraryError ''timeout''), 1)"
    by (simp add: sample_exp_lib_def)
  show ?thesis
    using no_retry_or_recovery[of sample_model MainThread started_world
        "raising_libs (LibraryError ''CUDA out of memory'')" sample_request "[]"
        "LibraryError ''CUDA out of memory''" 1 "[]" sample_exp_lib None 3 3 0]
      started_answers r sample_setup d
    by simp
qed

text \<open>
  Claim C7, at a request on the vllm path. Constructing the facade for the vllm backend
  raises the \<open>NameError\<close> for \<open>get_template_and_fix_tokenizer\<close>. On an instance that
  holds a vllm engine all the same, two \<open>chat\<close> calls with the same request return no
  list of responses: each raises the \<open>NameError\<close> for \<open>prompt_ids\<close>.
\<close>

theorem vllm_facade_returns_no_response_list:
  "fst (ChatModel_init vllm_libs None None None sample_world) =
     Inl (NameError ''get_template_and_fix_tokenizer'') \<and>
   fst (ChatModel_chat sample_libs vllm_model sample_request MainThread [] started_world) =
     Some (Inl (NameError ''prompt_ids'')) \<and>
   fst (ChatModel_chat sample_libs vllm_model sample_request MainThread []
          (snd (ChatModel_chat sample_libs vllm_model sample_request MainThread []
                  started_world))) =
     Some (Inl (NameError ''prompt_ids''))"
proof -
  have init: "fst (ChatModel_init vllm_libs None None None sample_world) =
     Inl (NameError ''get_template_and_fix_tokenizer'')"
    by (simp add: ChatModel_init_def vllm_libs_def sample_libs_def override_args_def
        select_engine_def sample_model_args_def VllmEngine_init_def sample_lib_def bind_def
        getitem_def load_global_get_template)
  have coro: "ChatModel_achat sample_libs vllm_model sample_request =
      Last (\<lambda>e. (Inl (NameError ''prompt_ids''), e))"
    using vllm_coro_raises[OF sample_generate]
    by (simp add: ChatModel_achat_def vllm_model_def sample_libs_def)
  have a1: "loop_answers vllm_model MainThread started_world"
    by (simp add: loop_answers_def vllm_model_def started_world_def)
  have first: "fst (ChatModel_chat sample_libs vllm_model sample_request MainThread []
      started_world) = Some (Inl (NameError ''prompt_ids''))"
    by (simp add: chat_outcome a1 coro through_bridge_def)
  have keep: "loops (snd (ChatModel_chat sample_libs vllm_model sample_request MainThread []
      started_world)) = loops started_world"
    using chat_returned_keeps_loops[OF first] .
  have a2: "loop_answers vllm_model MainThread
      (snd (ChatModel_chat sample_libs vllm_model sample_request MainThread [] started_world))"
    using a1 keep by (simp add: loop_answers_def)
  have second: "fst (ChatModel_chat sample_libs vllm_model sample_request MainThread []
      (snd (ChatModel_chat sample_libs vllm_model sample_request MainThread []
              started_world))) = Some (Inl (NameError ''prompt_ids''))"
    by (simp add: chat_outcome a2 coro through_bridge_def)
  from init first second show ?thesis by blast
qed




text \<open>
  Claim C9. The overrides of the constructor replace \<open>model_name_or_path\<close> of the model
  arguments when that parameter is not \<open>None\<close> and \<open>template\<close> of the data arguments
  when that parameter is not \<open>None\<close>, and nothing else: with a parameter \<open>None\<close> the
  object is returned as it was, and every other field keeps its value in all cases.
\<close>

theorem overrides_touch_only_requested_fields:
  "override_args mnp tmpl (m, d) =
     (m\<lparr>model_name_or_path := (case mnp of None \<Rightarrow> model_name_or_path m | Some v \<Rightarrow> Some v)\<rparr>,
      d\<lparr>data_template := (case tmpl of None \<Rightarrow> data_template d | Some t \<Rightarrow> Some t)\<rparr>) \<and>
   fst (override_args None tmpl (m, d)) = m \<and>
   snd (override_args mnp None (m, d)) = d \<and>
   infer_backend (fst (override_args mnp tmpl (m, d))) = infer_backend m \<and>
   infer_dtype (fst (override_args mnp tmpl (m, d))) = infer_dtype m \<and>
   model_other (fst (override_args mnp tmpl (m, d))) = model_other m \<and>
   data_other (snd (override_args mnp tmpl (m, d))) = data_other d"
  by (simp add: override_args_def split: option.splits)

section \<open>The logger\<close>

lemma logger_update_all:
  "(l::logger)\<lparr>lg_level := a, lg_handlers := b\<rparr> = \<lparr>lg_level = a, lg_handlers = b\<rparr>"
  by (cases l) simp

lemma setup_logger_result:
  assumes "handlers_exist w" and "can_open w log_file"
  shows "setup_logger log_file w =
      (Inr ''logger'',
       w\<lparr>files := (files w)(log_file \<mapsto> []),
         next_id := Suc (Suc (next_id w)),
         loggers := (loggers w)(''logger'' \<mapsto>
           \<lparr>lg_level = DEBUG,
            lg_handlers = attached w ''logger'' @
              [\<lparr>h_id = next_id w, h_kind = FileHandler log_file ''a'' ''utf-8'',
                h_level = INFO, h_formatter = Some log_format\<rparr>,
               \<lparr>h_id = Suc (next_id w), h_kind = StreamHandler Stderr,
                h_level = DEBUG, h_formatter = Some log_format\<rparr>]\<rparr>)\<rparr>)"
proof (cases "loggers w ''logger''")
  case None
  then show ?thesis
    using assms(2)
    by (simp add: setup_logger_def truncate_file_def getLogger_def Logger_setLevel_def
        FileHandler_new_def StreamHandler_new_def addHandler_def attached_def Let_def)
next
  case (Some l)
  have fresh: "next_id w \<notin> h_id ` set (lg_handlers l)"
    "Suc (next_id w) \<notin> h_id ` set (lg_handlers l)"
    using assms(1) Some by (fastforce simp: handlers_exist_def)+
  show ?thesis
    using assms(2) Some fresh
    by (simp add: setup_logger_def truncate_file_def getLogger_def Logger_setLevel_def
        FileHandler_new_def StreamHandler_new_def addHandler_def attached_def Let_def
        logger_update_all)
qed

lemma setup_logger_cannot_open:
  "\<not> can_open w log_file \<Longrightarrow> setup_logger log_file w = (Inl (OSError log_file), w)"
  by (simp add: setup_logger_def truncate_file_def)

text \<open>
  Claim C10. When the file can be opened, \<open>setup_logger\<close> returns the logger registered
  as \<open>logger\<close>; the file is then empty whatever it held, the logger's level is \<open>DEBUG\<close>,
  and its handlers are those it had before followed by exactly two new ones: a file
  handler on that file (opened for appending, in UTF-8) at level \<open>INFO\<close> and a stream
  handler on standard error at level \<open>DEBUG\<close>, both with the same timestamped format.
  No other file and no other logger changes.
\<close>

theorem setup_logger_truncates_and_attaches_two_handlers:
  assumes "handlers_exist w" and "can_open w log_file"
  shows "\<exists>w'. setup_logger log_file w = (Inr ''logger'', w') \<and>
    files w' log_file = Some [] \<and>
    (\<forall>p. p \<noteq> log_file \<longrightarrow> files w' p = files w p) \<and>
    loggers w' ''logger'' =
      Some \<lparr>lg_level = DEBUG,
            lg_handlers = attached w ''logger'' @
              [\<lparr>h_id = next_id w, h_kind = FileHandler log_file ''a'' ''utf-8'',
                h_level = INFO, h_formatter = Some log_format\<rparr>,
               \<lparr>h_id = Suc (next_id w), h_kind = StreamHandler Stderr,
                h_level = DEBUG, h_formatter = Some log_format\<rparr>]\<rparr> \<and>
    length (attached w' ''logger'') = length (attached w ''logger'') + 2 \<and>
    (\<forall>n. n \<noteq> ''logger'' \<longrightarrow> loggers w' n = loggers w n) \<and>
    handlers_exist w'"
proof -
  let ?w' = "snd (setup_logger log_file w)"
  note r = setup_logger_result[OF assms]
  have ex: "handlers_exist ?w'"
    unfolding r handlers_exist_def
  proof (intro allI impI ballI)
    fix name l h
    assume l: "loggers (snd (Inr ''logger'',
       w\<lparr>files := (files w)(log_file \<mapsto> []),
         next_id := Suc (Suc (next_id w)),
         loggers := (loggers w)(''logger'' \<mapsto>
           \<lparr>lg_level = DEBUG,
            lg_handlers = attached w ''logger'' @
              [\<lparr>h_id = next_id w, h_kind = FileHandler log_file ''a'' ''utf-8'',
                h_level = INFO, h_formatter = Some log_format\<rparr>,
               \<lparr>h_id = Suc (next_id w), h_kind = StreamHandler Stderr,
                h_level = DEBUG, h_formatter = Some log_format\<rparr>]\<rparr>)\<rparr>)) name = Some l"
      and h: "h \<in> set (lg_handlers l)"
    have old: "\<And>n k x. loggers w n = Some k \<Longrightarrow> x \<in> set (lg_handlers k) \<Longrightarrow> h_id x < next_id w"
      using assms(1) by (auto simp: handlers_exist_def)
    have att: "\<And>x. x \<in> set (attached w ''logger'') \<Longrightarrow> h_id x < next_id w"
      using old by (cases "loggers w ''logger''") (auto simp: attached_def)
    show "h_id h < next_id (snd (Inr ''logger'',
       w\<lparr>files := (files w)(log_file \<mapsto> []),
         next_id := Suc (Suc (next_id w)),
         loggers := (loggers w)(''logger'' \<mapsto>
           \<lparr>lg_level = DEBUG,
            lg_handlers = attached w ''logger'' @
              [\<lparr>h_id = next_id w, h_kind = FileHandler log_file ''a'' ''utf-8'',
                h_level = INFO, h_formatter = Some log_format\<rparr>,
               \<lparr>h_id = Suc (next_id w), h_kind = StreamHandler Stderr,
                h_level = DEBUG, h_formatter = Some log_format\<rparr>]\<rparr>)\<rparr>))"
    proof (cases "name = ''logger''")
      case True
      with l h have "h \<in> set (attached w ''logger'') \<or> h_id h = next_id w \<or>
          h_id h = Suc (next_id w)"
        by auto
      with att show ?thesis by fastforce
    next
      case False
      with l have "loggers w name = Some l" by simp
      from old[OF this h] show ?thesis by simp
    qed
  qed
  show ?thesis
    using ex unfolding r by (simp add: attached_def)
qed

lemma sample_log_world_ok:
  "handlers_exist sample_log_world \<and> can_open sample_log_world ''run.log''"
  by (simp add: handlers_exist_def sample_log_world_def)

theorem setup_logger_truncates_and_attaches_two_handlers_witness:
  "handlers_exist sample_log_world \<and> can_open sample_log_world ''run.log'' \<and>
   files sample_log_world ''run.log'' = Some ''old contents'' \<and>
   fst (setup_logger ''run.log'' sample_log_world) = Inr ''logger'' \<and>
   files (snd (setup_logger ''run.log'' sample_log_world)) ''run.log'' = Some [] \<and>
   loggers (snd (setup_logger ''run.log'' sample_log_world)) ''logger'' =
     Some \<lparr>lg_level = 10,
           lg_handlers =
             [\<lparr>h_id = 0, h_kind = FileHandler ''run.log'' ''a'' ''utf-8'', h_level = 20,
               h_formatter = Some ''%(asctime)s - %(name)s - %(levelname)s - %(message)s''\<rparr>,
              \<lparr>h_id = 1, h_kind = StreamHandler Stderr, h_level = 10,
               h_formatter = Some ''%(asctime)s - %(name)s - %(levelname)s - %(message)s''\<rparr>]\<rparr>"
proof -
  have ok: "handlers_exist sample_log_world" "can_open sample_log_world ''run.log''"
    using sample_log_world_ok by simp_all
  have old: "files sample_log_world ''run.log'' = Some ''old contents''"
    "attached sample_log_world ''logger'' = []" "next_id sample_log_world = 0"
    by (simp_all add: sample_log_world_def attached_def)
  from setup_logger_truncates_and_attaches_two_handlers[OF ok]
  obtain w' where "setup_logger ''run.log'' sample_log_world = (Inr ''logger'', w')"
    and "files w' ''run.log'' = Some []"
    and "loggers w' ''logger'' =
      Some \<lparr>lg_level = DEBUG,
            lg_handlers = attached sample_log_world ''logger'' @
              [\<lparr>h_id = next_id sample_log_world,
                h_kind = FileHandler ''run.log'' ''a'' ''utf-8'',
                h_level = INFO, h_formatter = Some log_format\<rparr>,
               \<lparr>h_id = Suc (next_id sample_log_world), h_kind = StreamHandler Stderr,
                h_level = DEBUG, h_formatter = Some log_format\<rparr>]\<rparr>"
    by blast
  with ok old show ?thesis
    by (simp add: DEBUG_def INFO_def log_format_def)
qed

end
